theory Spec2Isabelle
  imports Main
begin

section \<open>The architecture model builder of M2-ISA-R\<close>

text \<open>
  This theory embeds \<^verbatim>\<open>ArchitectureModelBuilder\<close> of
  \<^verbatim>\<open>architecture_model_builder.py\<close>: a lark \<^verbatim>\<open>Transformer\<close>
  whose methods are called bottom-up, one per grammar rule, each on the list of the
  already reduced children. Every method reads and mutates the private tables of the
  builder object. Here a method is a function from its argument tuple and the builder
  state to an outcome and the state it leaves behind; the state is returned on a raise
  too, since what a method has written before it raises stays written.
\<close>

subsection \<open>Values\<close>

text \<open>
  The scalar values the reductions receive and store. A size, a length or a default
  value arrives as an \<^verbatim>\<open>int\<close> or as a name (\<^verbatim>\<open>str\<close>);
  \<^verbatim>\<open>get_constant_or_val\<close> turns a name into the \<^verbatim>\<open>Constant\<close>
  object registered under it (the object, not its value). Every write
  \<^verbatim>\<open>self.__constants[name] = c\<close> of the source is guarded by
  \<^verbatim>\<open>name not in self.__constants\<close>, so the object stored under a name is never
  replaced by another one: \<open>PConst n\<close> stands for the reference to the one Constant
  object stored under \<open>n\<close>, and its fields are read through the table.
\<close>

datatype pyval = PInt int | PStr string | PConst string

text \<open>
  The enumerations \<^verbatim>\<open>ConstAttribute\<close>, \<^verbatim>\<open>RegAttribute\<close>,
  \<^verbatim>\<open>SpaceAttribute\<close>, \<^verbatim>\<open>InstrAttribute\<close> and \<^verbatim>\<open>DataType\<close> live in
  \<^verbatim>\<open>model_classes\<close>; a member is named by its (upper case) name.
\<close>

datatype attribute = ConstAttribute string | RegAttribute string
  | SpaceAttribute string | InstrAttribute string

datatype DataType = DataType string

text \<open>
  The exceptions the builder raises: \<^verbatim>\<open>ValueError\<close> with its message,
  \<^verbatim>\<open>AssertionError\<close> from a failed \<^verbatim>\<open>assert\<close>, and
  \<^verbatim>\<open>KeyError\<close> with the missing key from a failed dictionary subscript.
\<close>

datatype error = ValueError string | AssertionError | KeyError pyval

text \<open>
  A method returns a value, raises lark's \<^verbatim>\<open>Discard\<close> (the reduction has no
  tree value), or raises an error.
\<close>

datatype 'a outcome = Return 'a | Discard | Raise error

text \<open>
  The names the specification gives to the two fatal conditions: a
  \<^verbatim>\<open>ValueError\<close> is raised by the duplicate checks only, a failed
  \<^verbatim>\<open>assert\<close> or dictionary subscript is a name that does not resolve.
\<close>

datatype spec_error = DuplicateDeclarationError | UnresolvedReferenceError

fun spec_error_of :: "error \<Rightarrow> spec_error" where
  "spec_error_of (ValueError msg) = DuplicateDeclarationError"
| "spec_error_of AssertionError = UnresolvedReferenceError"
| "spec_error_of (KeyError k) = UnresolvedReferenceError"

subsection \<open>Entities\<close>

text \<open>
  The classes of \<^verbatim>\<open>model_classes\<close>, as the builder constructs them: one field per
  constructor argument, in the order of the call. \<^verbatim>\<open>RangeSpec(*args)\<close> keeps its
  positional arguments.
\<close>

datatype RangeSpec = RangeSpec (rs_args: "pyval list")

record Constant =
  c_name :: string
  c_value :: "int option"
  c_attributes :: "attribute set"

record AddressSpace =
  as_name :: string
  as_length_base :: pyval
  as_length_power :: pyval
  as_size :: pyval
  as_attributes :: "attribute set"

record Register =
  r_name :: string
  r_attributes :: "attribute set"
  r_initval :: "pyval option"
  r_size :: pyval

record RegisterFile =
  rf_name :: string
  rf_range :: RangeSpec
  rf_attributes :: "attribute set"
  rf_size :: pyval

text \<open>
  The actual register of an alias is a reference to an object of one of the three
  register tables. As for constants, an object stored in one of these tables is never
  replaced (every write is guarded by the duplicate check), so the reference is the
  table and the key.
\<close>

datatype reg_ref = InRegisterFile string | InRegisters string | InRegisterAlias string

text \<open>The index argument of an alias: a \<^verbatim>\<open>RangeSpec\<close> or a single index.\<close>

datatype index_arg = IndexRange RangeSpec | IndexVal pyval

record RegisterAlias =
  ra_name :: string
  ra_actual :: reg_ref
  ra_index :: index_arg
  ra_attributes :: "attribute set"
  ra_initval :: "pyval option"
  ra_size :: pyval

text \<open>
  Memory objects are shared and mutated: an alias appends its view to the
  \<^verbatim>\<open>children\<close> list of its parent's object, and the same view object is stored
  in a table, where a later alias can extend it in turn. So Memory objects live in a
  store, a list indexed by address; \<open>m_children\<close> holds addresses.
\<close>

type_synonym ref = nat

record Memory =
  m_name :: string
  m_range :: RangeSpec
  m_size :: pyval
  m_attributes :: "attribute set"
  m_children :: "ref list"

record BitField =
  bf_name :: string
  bf_range :: RangeSpec
  bf_data_type :: DataType

record BitVal =
  bv_length :: int
  bv_value :: int

datatype enc_elem = EncField BitField | EncVal BitVal

text \<open>
  \<^verbatim>\<open>Instruction(name, attributes, encoding, disass, operation)\<close>; its constructor
  derives \<^verbatim>\<open>code\<close> and \<^verbatim>\<open>mask\<close> from the encoding. The operation is an
  opaque payload of type \<open>'op\<close>.
\<close>

record 'op Instruction =
  i_name :: string
  i_attributes :: "attribute set"
  i_encoding :: "enc_elem list"
  i_disass :: string
  i_operation :: 'op
  i_code :: int
  i_mask :: int
  i_ext_name :: "string option"

record FnParam =
  p_name :: string
  p_size :: pyval
  p_data_type :: DataType

record 'op Function =
  f_name :: string
  f_return_len :: "pyval option"
  f_data_type :: DataType
  f_args :: "FnParam list"
  f_operation :: 'op
  f_ext_name :: "string option"

record 'op InstructionSet =
  is_name :: string
  is_extension :: "string list"
  is_constants :: "(string \<rightharpoonup> Constant) option"
  is_address_spaces :: "(string \<rightharpoonup> AddressSpace) option"
  is_registers :: "(string \<rightharpoonup> Register) option"
  is_instructions :: "(string \<rightharpoonup> 'op Instruction) option"

subsection \<open>The builder state\<close>

text \<open>
  The private fields \<^verbatim>\<open>__constants\<close>, \<^verbatim>\<open>__address_spaces\<close>, ... of the builder
  (prefixed \<open>b_\<close> here: several share their name with a method), the store of Memory
  objects, and the lines written by \<^verbatim>\<open>print\<close>. \<^verbatim>\<open>__read_types\<close> is read
  for its keys in insertion order only, so it is the list of its keys.
\<close>

record 'op builder =
  b_constants :: "string \<rightharpoonup> Constant"
  b_address_spaces :: "string \<rightharpoonup> AddressSpace"
  b_registers :: "string \<rightharpoonup> Register"
  b_register_file :: "string \<rightharpoonup> RegisterFile"
  b_register_alias :: "string \<rightharpoonup> RegisterAlias"
  b_instructions :: "(int \<times> int) \<rightharpoonup> 'op Instruction"
  b_functions :: "string \<rightharpoonup> 'op Function"
  b_instruction_sets :: "string \<rightharpoonup> 'op InstructionSet"
  b_read_types :: "string list"
  b_memories :: "string \<rightharpoonup> ref"
  b_memory_aliases :: "string \<rightharpoonup> ref"
  b_fields :: "(nat \<times> string) \<Rightarrow> BitField list"
  b_current_instr_idx :: nat
  b_current_fn_idx :: nat
  store :: "Memory list"
  stdout :: "string list"

text \<open>\<^verbatim>\<open>__init__\<close>: every table empty, both counters 0.\<close>

definition init :: "'op builder" where
  "init = \<lparr> b_constants = Map.empty, b_address_spaces = Map.empty,
     b_registers = Map.empty, b_register_file = Map.empty,
     b_register_alias = Map.empty, b_instructions = Map.empty,
     b_functions = Map.empty, b_instruction_sets = Map.empty,
     b_read_types = [], b_memories = Map.empty, b_memory_aliases = Map.empty,
     b_fields = (\<lambda>k. []), b_current_instr_idx = 0, b_current_fn_idx = 0,
     store = [], stdout = [] \<rparr>"

subsection \<open>Constants\<close>

text \<open>
  \<^verbatim>\<open>get_constant_or_val\<close>: an \<^verbatim>\<open>int\<close> is returned as it is; anything else
  is a key of \<^verbatim>\<open>__constants\<close>, and the subscript raises \<^verbatim>\<open>KeyError\<close> when
  the key is absent. A Constant object is never a key of the table.
\<close>

fun get_constant_or_val :: "'op builder \<Rightarrow> pyval \<Rightarrow> error + pyval" where
  "get_constant_or_val s (PInt i) = Inr (PInt i)"
| "get_constant_or_val s (PStr n) =
     (case b_constants s n of None \<Rightarrow> Inl (KeyError (PStr n)) | Some c \<Rightarrow> Inr (PConst n))"
| "get_constant_or_val s (PConst n) = Inl (KeyError (PConst n))"

text \<open>
  \<^verbatim>\<open>constant_decl\<close>: the duplicate check raises; the second test of the same
  condition, which would return the existing object, follows it in the source.
\<close>

definition constant_decl ::
  "string \<times> int option \<Rightarrow> 'op builder \<Rightarrow> Constant outcome \<times> 'op builder" where
  "constant_decl args s =
     (case args of (name, default_value) \<Rightarrow>
        if b_constants s name \<noteq> None
        then (Raise (ValueError (''Constant '' @ name @ '' already defined!'')), s)
        else (case b_constants s name of
                Some c \<Rightarrow> (Return c, s)
              | None \<Rightarrow>
                  let c = \<lparr> c_name = name, c_value = default_value, c_attributes = {} \<rparr>
                  in (Return c, s\<lparr> b_constants := (b_constants s)(name \<mapsto> c) \<rparr>)))"

text \<open>
  \<^verbatim>\<open>constant_def\<close>: an existing Constant object is updated in place (value and
  attributes; its name and its place in the table stay), a new one is created and
  registered otherwise.
\<close>

definition constant_def ::
  "string \<times> int option \<times> attribute set \<Rightarrow> 'op builder \<Rightarrow> Constant outcome \<times> 'op builder" where
  "constant_def args s =
     (case args of (name, val, attributes) \<Rightarrow>
        (case b_constants s name of
           Some c0 \<Rightarrow>
             let c = c0\<lparr> c_value := val, c_attributes := attributes \<rparr>
             in (Return c, s\<lparr> b_constants := (b_constants s)(name \<mapsto> c) \<rparr>)
         | None \<Rightarrow>
             let c = \<lparr> c_name = name, c_value = val, c_attributes = attributes \<rparr>
             in (Return c, s\<lparr> b_constants := (b_constants s)(name \<mapsto> c) \<rparr>)))"

subsection \<open>Address spaces, registers and register files\<close>

text \<open>
  Each of the three creates its entity, stores it in its own table, and creates a
  Memory view that it stores under the same name in the one table
  \<^verbatim>\<open>__memories\<close>. A new Memory object has no children. The sizes are resolved
  in the order of the source, so the first name that does not resolve raises.
\<close>

definition address_space ::
  "string \<times> pyval \<times> pyval \<times> pyval option \<times> attribute set \<Rightarrow> 'op builder
     \<Rightarrow> AddressSpace outcome \<times> 'op builder" where
  "address_space args s =
     (case args of (name, sz, length_base, length_power, attribs) \<Rightarrow>
        if b_address_spaces s name \<noteq> None
        then (Raise (ValueError (''Address space '' @ name @ '' already defined!'')), s)
        else (case b_address_spaces s name of
          Some a \<Rightarrow> (Return a, s)
        | None \<Rightarrow>
        (case get_constant_or_val s sz of
          Inl e \<Rightarrow> (Raise e, s)
        | Inr sz' \<Rightarrow>
        (case get_constant_or_val s length_base of
          Inl e \<Rightarrow> (Raise e, s)
        | Inr length_base' \<Rightarrow>
        (case (case length_power of
                 None \<Rightarrow> Inr (PInt 1)
               | Some p \<Rightarrow> get_constant_or_val s p) of
          Inl e \<Rightarrow> (Raise e, s)
        | Inr length_power' \<Rightarrow>
            let a = \<lparr> as_name = name, as_length_base = length_base',
                      as_length_power = length_power', as_size = sz',
                      as_attributes = attribs \<rparr>;
                s1 = s\<lparr> b_address_spaces := (b_address_spaces s)(name \<mapsto> a) \<rparr>;
                m = \<lparr> m_name = name,
                      m_range = RangeSpec [length_base', PInt 0, length_power'],
                      m_size = sz', m_attributes = attribs, m_children = [] \<rparr>
            in (Return a, s1\<lparr> store := store s1 @ [m],
                  b_memories := (b_memories s1)(name \<mapsto> length (store s1)) \<rparr>))))))"

definition register ::
  "string \<times> pyval \<times> attribute set \<Rightarrow> 'op builder \<Rightarrow> Register outcome \<times> 'op builder" where
  "register args s =
     (case args of (name, sz, attributes) \<Rightarrow>
        if b_registers s name \<noteq> None
        then (Raise (ValueError (''Register '' @ name @ '' already defined!'')), s)
        else (case b_registers s name of
          Some r \<Rightarrow> (Return r, s)
        | None \<Rightarrow>
        (case get_constant_or_val s sz of
          Inl e \<Rightarrow> (Raise e, s)
        | Inr sz' \<Rightarrow>
            let r = \<lparr> r_name = name, r_attributes = attributes, r_initval = None,
                      r_size = sz' \<rparr>;
                s1 = s\<lparr> b_registers := (b_registers s)(name \<mapsto> r) \<rparr>;
                m = \<lparr> m_name = name, m_range = RangeSpec [PInt 0, PInt 0],
                      m_size = sz', m_attributes = attributes, m_children = [] \<rparr>
            in (Return r, s1\<lparr> store := store s1 @ [m],
                  b_memories := (b_memories s1)(name \<mapsto> length (store s1)) \<rparr>))))"

definition register_file ::
  "RangeSpec \<times> string \<times> pyval \<times> attribute set \<Rightarrow> 'op builder
     \<Rightarrow> RegisterFile outcome \<times> 'op builder" where
  "register_file args s =
     (case args of (rng, name, sz, attributes) \<Rightarrow>
        if b_register_file s name \<noteq> None
        then (Raise (ValueError (''Register file '' @ name @ '' already defined!'')), s)
        else (case b_register_file s name of
          Some r \<Rightarrow> (Return r, s)
        | None \<Rightarrow>
        (case get_constant_or_val s sz of
          Inl e \<Rightarrow> (Raise e, s)
        | Inr sz' \<Rightarrow>
            let r = \<lparr> rf_name = name, rf_range = rng, rf_attributes = attributes,
                      rf_size = sz' \<rparr>;
                s1 = s\<lparr> b_register_file := (b_register_file s)(name \<mapsto> r) \<rparr>;
                m = \<lparr> m_name = name, m_range = rng, m_size = sz',
                      m_attributes = attributes, m_children = [] \<rparr>
            in (Return r, s1\<lparr> store := store s1 @ [m],
                  b_memories := (b_memories s1)(name \<mapsto> length (store s1)) \<rparr>))))"

subsection \<open>Register aliases\<close>

text \<open>
  \<^verbatim>\<open>self.__register_file.get(actual) or self.__registers.get(actual) or
  self.__register_alias.get(actual)\<close>: the first table that holds the name gives the
  object (entity objects are true in a boolean context, \<^verbatim>\<open>None\<close> is false).
\<close>

definition actual_reg :: "'op builder \<Rightarrow> string \<Rightarrow> reg_ref option" where
  "actual_reg s actual =
     (case b_register_file s actual of
        Some f \<Rightarrow> Some (InRegisterFile actual)
      | None \<Rightarrow>
     (case b_registers s actual of
        Some r \<Rightarrow> Some (InRegisters actual)
      | None \<Rightarrow>
     (case b_register_alias s actual of
        Some a \<Rightarrow> Some (InRegisterAlias actual)
      | None \<Rightarrow> None)))"

text \<open>
  \<^verbatim>\<open>self.__memories.get(actual) or self.__memory_aliases.get(actual)\<close>: the
  address of the parent's Memory object.
\<close>

definition parent_mem :: "'op builder \<Rightarrow> string \<Rightarrow> ref option" where
  "parent_mem s actual =
     (case b_memories s actual of
        Some p \<Rightarrow> Some p
      | None \<Rightarrow> b_memory_aliases s actual)"

text \<open>
  \<^verbatim>\<open>register_alias\<close>. The alias entity is constructed, with the index as it was
  given, and stored before the index is normalized; the Memory view gets the normalized
  index. The alias is already in its table when the second \<^verbatim>\<open>assert\<close> runs.
  \<^verbatim>\<open>parent_mem.children.append(m)\<close> changes the parent's object in the store.
\<close>

definition register_alias ::
  "string \<times> pyval \<times> string \<times> index_arg \<times> attribute set \<Rightarrow> 'op builder
     \<Rightarrow> RegisterAlias outcome \<times> 'op builder" where
  "register_alias args s =
     (case args of (name, sz, actual, index, attributes) \<Rightarrow>
        if b_register_alias s name \<noteq> None
        then (Raise (ValueError (''Register alias '' @ name @ '' already defined!'')), s)
        else (case b_register_alias s name of
          Some r \<Rightarrow> (Return r, s)
        | None \<Rightarrow>
        (case actual_reg s actual of
          None \<Rightarrow> (Raise AssertionError, s)
        | Some areg \<Rightarrow>
        (case get_constant_or_val s sz of
          Inl e \<Rightarrow> (Raise e, s)
        | Inr sz' \<Rightarrow>
            let r = \<lparr> ra_name = name, ra_actual = areg, ra_index = index,
                      ra_attributes = attributes, ra_initval = None, ra_size = sz' \<rparr>;
                s1 = s\<lparr> b_register_alias := (b_register_alias s)(name \<mapsto> r) \<rparr>;
                index' = (case index of
                            IndexRange rs \<Rightarrow> rs
                          | IndexVal i \<Rightarrow> RangeSpec [i, i])
            in (case parent_mem s1 actual of
                  None \<Rightarrow> (Raise AssertionError, s1)
                | Some p \<Rightarrow>
                    let m = \<lparr> m_name = name, m_range = index', m_size = sz',
                              m_attributes = attributes, m_children = [] \<rparr>;
                        new = length (store s1);
                        st = store s1 @ [m];
                        st' = st[p := (st ! p)\<lparr> m_children := m_children (st ! p) @ [new] \<rparr>]
                    in (Return r, s1\<lparr> store := st',
                          b_memory_aliases := (b_memory_aliases s1)(name \<mapsto> new) \<rparr>))))))"

subsection \<open>Bit fields and instructions\<close>

definition bit_field ::
  "string \<times> RangeSpec \<times> DataType option \<Rightarrow> 'op builder \<Rightarrow> BitField outcome \<times> 'op builder" where
  "bit_field args s =
     (case args of (name, rng, data_type) \<Rightarrow>
        let data_type' = (case data_type of None \<Rightarrow> DataType ''U'' | Some d \<Rightarrow> d);
            b = \<lparr> bf_name = name, bf_range = rng, bf_data_type = data_type' \<rparr>;
            k = (b_current_instr_idx s, name)
        in (Return b, s\<lparr> b_fields := (b_fields s)(k := b_fields s k @ [b]) \<rparr>))"

text \<open>
  The constructor \<^verbatim>\<open>Instruction(name, attributes, encoding, disass, operation)\<close>
  computes \<^verbatim>\<open>code\<close> and \<^verbatim>\<open>mask\<close> from the encoding; that
  computation is in \<^verbatim>\<open>model_classes\<close> and is the parameter \<open>derive\<close> here.
\<close>

definition Instruction_init ::
  "(enc_elem list \<Rightarrow> int \<times> int)
     \<Rightarrow> string \<times> attribute set \<times> enc_elem list \<times> string \<times> 'op \<Rightarrow> 'op Instruction" where
  "Instruction_init derive args =
     (case args of (name, attributes, encoding, disass, operation) \<Rightarrow>
        \<lparr> i_name = name, i_attributes = attributes, i_encoding = encoding,
          i_disass = disass, i_operation = operation,
          i_code = fst (derive encoding), i_mask = snd (derive encoding),
          i_ext_name = None \<rparr>)"

text \<open>
  \<^verbatim>\<open>instruction\<close>. The table is keyed by the pair \<^verbatim>\<open>(i.code, i.mask)\<close>.
  \<^verbatim>\<open>print\<close> appends a line to the output.
\<close>

definition instruction ::
  "(enc_elem list \<Rightarrow> int \<times> int)
     \<Rightarrow> string \<times> attribute set \<times> enc_elem list \<times> string \<times> 'op \<Rightarrow> 'op builder
     \<Rightarrow> 'op Instruction outcome \<times> 'op builder" where
  "instruction derive args s =
     (case args of (name, attributes, encoding, disass, operation) \<Rightarrow>
        let i = Instruction_init derive (name, attributes, encoding, disass, operation);
            instr_id = (i_code i, i_mask i);
            s1 = (case b_instructions s instr_id of
                    Some old \<Rightarrow>
                      s\<lparr> stdout := stdout s @
                        [''WARN: overwriting instruction '' @ i_name old @ '' with '' @ name] \<rparr>
                  | None \<Rightarrow> s)
        in (Return i, s1\<lparr> b_instructions := (b_instructions s1)(instr_id \<mapsto> i),
              b_current_instr_idx := b_current_instr_idx s1 + 1 \<rparr>))"

text \<open>
  The driver reduces the instructions of a description one after the other; the state
  after a sequence of \<^verbatim>\<open>instruction\<close> reductions.
\<close>

fun reduce_instructions ::
  "(enc_elem list \<Rightarrow> int \<times> int)
     \<Rightarrow> (string \<times> attribute set \<times> enc_elem list \<times> string \<times> 'op) list \<Rightarrow> 'op builder
     \<Rightarrow> 'op builder" where
  "reduce_instructions derive [] s = s"
| "reduce_instructions derive (a # as) s =
     reduce_instructions derive as (snd (instruction derive a s))"

subsection \<open>Default values\<close>

text \<open>
  \<^verbatim>\<open>register_default\<close>:
  \<^verbatim>\<open>self.__register_alias.get(name) or self.__registers.get(name)\<close>, then the
  value is resolved, then \<^verbatim>\<open>_initval\<close> of the object found is assigned, and
  \<^verbatim>\<open>Discard\<close> is raised.
\<close>

definition register_default ::
  "string \<times> pyval \<Rightarrow> 'op builder \<Rightarrow> unit outcome \<times> 'op builder" where
  "register_default args s =
     (case args of (name, value_or_ref) \<Rightarrow>
        (case b_register_alias s name of
           Some a \<Rightarrow>
             (case get_constant_or_val s value_or_ref of
                Inl e \<Rightarrow> (Raise e, s)
              | Inr val \<Rightarrow>
                  (Discard, s\<lparr> b_register_alias :=
                     (b_register_alias s)(name \<mapsto> a\<lparr> ra_initval := Some val \<rparr>) \<rparr>))
         | None \<Rightarrow>
        (case b_registers s name of
           Some r \<Rightarrow>
             (case get_constant_or_val s value_or_ref of
                Inl e \<Rightarrow> (Raise e, s)
              | Inr val \<Rightarrow>
                  (Discard, s\<lparr> b_registers :=
                     (b_registers s)(name \<mapsto> r\<lparr> r_initval := Some val \<rparr>) \<rparr>))
         | None \<Rightarrow> (Raise AssertionError, s))))"

subsection \<open>Final assembly\<close>

text \<open>
  \<^verbatim>\<open>CoreDef\<close>, one field per argument of the constructor call in
  \<^verbatim>\<open>core_def\<close>. The Memory tables hold addresses of the store.
\<close>

record 'op CoreDef =
  cd_name :: string
  cd_contributing_types :: "string list"
  cd_template :: "string option"
  cd_constants :: "string \<rightharpoonup> Constant"
  cd_address_spaces :: "string \<rightharpoonup> AddressSpace"
  cd_register_files :: "string \<rightharpoonup> RegisterFile"
  cd_registers :: "string \<rightharpoonup> Register"
  cd_register_aliases :: "string \<rightharpoonup> RegisterAlias"
  cd_memories :: "string \<rightharpoonup> ref"
  cd_memory_aliases :: "string \<rightharpoonup> ref"
  cd_functions :: "string \<rightharpoonup> 'op Function"
  cd_instructions :: "(int \<times> int) \<rightharpoonup> 'op Instruction"

text \<open>
  The value of the local \<^verbatim>\<open>merged_registers\<close>:
  \<^verbatim>\<open>{**self.__register_file, **self.__registers, **self.__register_alias}\<close>, a
  dictionary whose values are objects of the three classes; a later table overrides.
\<close>

datatype reg_entity = OfRegisterFile RegisterFile | OfRegister Register
  | OfRegisterAlias RegisterAlias

definition merged_registers :: "'op builder \<Rightarrow> (string \<rightharpoonup> reg_entity)" where
  "merged_registers s =
     (map_option OfRegisterFile \<circ> b_register_file s)
       ++ (map_option OfRegister \<circ> b_registers s)
       ++ (map_option OfRegisterAlias \<circ> b_register_alias s)"

text \<open>
  \<^verbatim>\<open>core_def\<close>: of its nine children the first is the name and the third the
  template, the others are ignored. \<^verbatim>\<open>merged_registers\<close> is bound and not used
  again; the CoreDef is built from the tables.
\<close>

definition core_def ::
  "string \<times> string option \<Rightarrow> 'op builder \<Rightarrow> 'op CoreDef outcome \<times> 'op builder" where
  "core_def args s =
     (case args of (name, template) \<Rightarrow>
        let merged = merged_registers s;
            c = \<lparr> cd_name = name, cd_contributing_types = b_read_types s,
                  cd_template = template, cd_constants = b_constants s,
                  cd_address_spaces = b_address_spaces s,
                  cd_register_files = b_register_file s,
                  cd_registers = b_registers s,
                  cd_register_aliases = b_register_alias s,
                  cd_memories = b_memories s,
                  cd_memory_aliases = b_memory_aliases s,
                  cd_functions = b_functions s,
                  cd_instructions = b_instructions s \<rparr>
        in (Return c, s))"

subsection \<open>Reductions by rule name\<close>

text \<open>
  The transformer calls the method named after the grammar rule on the reduced
  children. The three rules that store a Memory view in \<^verbatim>\<open>__memories\<close>, as one
  type of reductions: the rule, with the children it is called on.
\<close>

datatype reduction =
    Address_space "string \<times> pyval \<times> pyval \<times> pyval option \<times> attribute set"
  | Register "string \<times> pyval \<times> attribute set"
  | Register_file "RangeSpec \<times> string \<times> pyval \<times> attribute set"

datatype entity = AnAddressSpace AddressSpace | ARegister Register
  | ARegisterFile RegisterFile

fun reduce :: "reduction \<Rightarrow> 'op builder \<Rightarrow> entity outcome \<times> 'op builder" where
  "reduce (Address_space args) s = apfst (map_outcome AnAddressSpace) (address_space args s)"
| "reduce (Register args) s = apfst (map_outcome ARegister) (register args s)"
| "reduce (Register_file args) s = apfst (map_outcome ARegisterFile) (register_file args s)"

fun rule_name :: "reduction \<Rightarrow> string" where
  "rule_name (Address_space args) = ''address_space''"
| "rule_name (Register args) = ''register''"
| "rule_name (Register_file args) = ''register_file''"

fun declared_name :: "reduction \<Rightarrow> string" where
  "declared_name (Address_space (name, sz, length_base, length_power, attribs)) = name"
| "declared_name (Register (name, sz, attributes)) = name"
| "declared_name (Register_file (rng, name, sz, attributes)) = name"

text \<open>
  What a reduction needs of the state it starts from: its name is free in the table of
  its own kind, and each of its sizes is an integer or the name of a constant.
\<close>

definition resolves :: "'op builder \<Rightarrow> pyval \<Rightarrow> bool" where
  "resolves s v = (\<not> isl (get_constant_or_val s v))"

fun admissible :: "'op builder \<Rightarrow> reduction \<Rightarrow> bool" where
  "admissible s (Address_space (name, sz, length_base, length_power, attribs)) =
     (b_address_spaces s name = None \<and> resolves s sz \<and> resolves s length_base
      \<and> (case length_power of None \<Rightarrow> True | Some p \<Rightarrow> resolves s p))"
| "admissible s (Register (name, sz, attributes)) =
     (b_registers s name = None \<and> resolves s sz)"
| "admissible s (Register_file (rng, name, sz, attributes)) =
     (b_register_file s name = None \<and> resolves s sz)"

subsection \<open>Failure, as the specification names it\<close>

text \<open>
  The result of a reduction started in \<open>s\<close> is a failure of the given kind that has
  left the state as it was.
\<close>

definition fails_with ::
  "spec_error \<Rightarrow> 'op builder \<Rightarrow> 'a outcome \<times> 'op builder \<Rightarrow> bool" where
  "fails_with e s res =
     (case fst res of Raise x \<Rightarrow> spec_error_of x = e \<and> snd res = s | _ \<Rightarrow> False)"

subsection \<open>Well-formed stores\<close>

text \<open>
  Python has no dangling references, and a new object is different from every object
  that exists. In the store this is: the Memory tables and the child lists hold
  addresses below the length of the store. A child is added by \<^verbatim>\<open>register_alias\<close>
  only, under the name of the alias it has just stored, so every child bears the
  name of a declared alias.
\<close>

definition wf_store :: "'op builder \<Rightarrow> bool" where
  "wf_store s =
     ((\<forall>n p. b_memories s n = Some p \<longrightarrow> p < length (store s))
      \<and> (\<forall>n p. b_memory_aliases s n = Some p \<longrightarrow> p < length (store s))
      \<and> (\<forall>m \<in> set (store s). \<forall>c \<in> set (m_children m).
            c < length (store s) \<and> b_register_alias s (m_name (store s ! c)) \<noteq> None))"

subsection \<open>Sequences of reductions\<close>

text \<open>
  The states a builder can be in after further reductions, in any number and order, of
  the rules above, whether they return or raise. (The two rules left out,
  \<^verbatim>\<open>function_def\<close> and \<^verbatim>\<open>instruction_set\<close>, write the function table, the
  instruction-set table, the read types and the \<^verbatim>\<open>ext_name\<close> tags only.)
  \<open>extends s t\<close>: every name declared in \<open>s\<close> in one of the five namespaces is still
  declared there in \<open>t\<close>.
\<close>

inductive reaches ::
  "(enc_elem list \<Rightarrow> int \<times> int) \<Rightarrow> 'op builder \<Rightarrow> 'op builder \<Rightarrow> bool"
  for derive :: "enc_elem list \<Rightarrow> int \<times> int" where
  no_reduction: "reaches derive s s"
| after_constant_decl:
    "reaches derive s t \<Longrightarrow> reaches derive s (snd (constant_decl args t))"
| after_constant_def:
    "reaches derive s t \<Longrightarrow> reaches derive s (snd (constant_def args t))"
| after_address_space:
    "reaches derive s t \<Longrightarrow> reaches derive s (snd (address_space args t))"
| after_register:
    "reaches derive s t \<Longrightarrow> reaches derive s (snd (register args t))"
| after_register_file:
    "reaches derive s t \<Longrightarrow> reaches derive s (snd (register_file args t))"
| after_register_alias:
    "reaches derive s t \<Longrightarrow> reaches derive s (snd (register_alias args t))"
| after_bit_field:
    "reaches derive s t \<Longrightarrow> reaches derive s (snd (bit_field args t))"
| after_instruction:
    "reaches derive s t \<Longrightarrow> reaches derive s (snd (instruction derive args t))"
| after_register_default:
    "reaches derive s t \<Longrightarrow> reaches derive s (snd (register_default args t))"
| after_core_def:
    "reaches derive s t \<Longrightarrow> reaches derive s (snd (core_def args t))"

definition extends :: "'op builder \<Rightarrow> 'op builder \<Rightarrow> bool" where
  "extends s t =
     (\<forall>n. (b_constants s n \<noteq> None \<longrightarrow> b_constants t n \<noteq> None)
        \<and> (b_address_spaces s n \<noteq> None \<longrightarrow> b_address_spaces t n \<noteq> None)
        \<and> (b_registers s n \<noteq> None \<longrightarrow> b_registers t n \<noteq> None)
        \<and> (b_register_file s n \<noteq> None \<longrightarrow> b_register_file t n \<noteq> None)
        \<and> (b_register_alias s n \<noteq> None \<longrightarrow> b_register_alias t n \<noteq> None))"

subsection \<open>Resolved lengths\<close>





subsection \<open>Example states\<close>

text \<open>
  A builder in which the name \<open>X\<close> has been declared once as each of the five kinds,
  the builder of the scenarios after \<^verbatim>\<open>Register X0\<close> of size 32, and a derivation
  of instruction keys for the examples.
\<close>

definition populated :: "unit builder" where
  "populated =
     snd (register_alias (''X'', PInt 8, ''X'', IndexVal (PInt 0), {})
       (snd (register_file (RangeSpec [PInt 31, PInt 0], ''X'', PInt 32, {})
         (snd (register (''X'', PInt 32, {})
           (snd (address_space (''X'', PInt 8, PInt 4, None, {})
             (snd (constant_decl (''X'', Some 1) init)))))))))"

definition with_X0 :: "unit builder" where
  "with_X0 = snd (register (''X0'', PInt 32, {}) init)"

text \<open>
  The builder of the scenario \<^verbatim>\<open>WLEN = 32\<close>, and the one after the address
  space \<^verbatim>\<open>MEM\<close> of length \<^verbatim>\<open>WLEN\<close> and power 1 has been declared in it.
\<close>

definition with_WLEN :: "unit builder" where
  "with_WLEN = snd (constant_decl (''WLEN'', Some 32) init)"

definition with_MEM :: "unit builder" where
  "with_MEM =
     snd (address_space (''MEM'', PInt 8, PStr ''WLEN'', Some (PInt 1), {}) with_WLEN)"

definition width_key :: "enc_elem list \<Rightarrow> int \<times> int" where
  "width_key encoding = (int (length encoding), 0)"

text \<open>
  The builder after \<^verbatim>\<open>Register X0\<close> and its alias \<open>X0L\<close> at the index range
  [15:0]; the builder after \<^verbatim>\<open>Register X0\<close> and then an address space that is
  named \<open>X0\<close> too; and a length rule for the examples, the base to the power.
\<close>

definition with_X0L :: "unit builder" where
  "with_X0L =
     snd (register_alias (''X0L'', PInt 16, ''X0'', IndexRange (RangeSpec [PInt 15, PInt 0]), {})
       with_X0)"

definition shadowed_X0 :: "unit builder" where
  "shadowed_X0 = snd (address_space (''X0'', PInt 8, PInt 4, None, {}) with_X0)"


section \<open>Properties\<close>

subsection \<open>Duplicate declarations\<close>

lemma constant_decl_dup:
  "b_constants s n \<noteq> None \<Longrightarrow>
   constant_decl (n, v) s = (Raise (ValueError (''Constant '' @ n @ '' already defined!'')), s)"
  by (simp add: constant_decl_def)

lemma address_space_dup:
  "b_address_spaces s n \<noteq> None \<Longrightarrow>
   address_space (n, sz, lb, lp, at) s =
     (Raise (ValueError (''Address space '' @ n @ '' already defined!'')), s)"
  by (simp add: address_space_def)

lemma register_dup:
  "b_registers s n \<noteq> None \<Longrightarrow>
   register (n, sz, at) s = (Raise (ValueError (''Register '' @ n @ '' already defined!'')), s)"
  by (simp add: register_def)

lemma register_file_dup:
  "b_register_file s n \<noteq> None \<Longrightarrow>
   register_file (rng, n, sz, at) s =
     (Raise (ValueError (''Register file '' @ n @ '' already defined!'')), s)"
  by (simp add: register_file_def)

lemma register_alias_dup:
  "b_register_alias s n \<noteq> None \<Longrightarrow>
   register_alias (n, sz, ac, ix, at) s =
     (Raise (ValueError (''Register alias '' @ n @ '' already defined!'')), s)"
  by (simp add: register_alias_def)

lemma constant_decl_registers:
  "constant_decl (n, v) s = (Return c, s') \<Longrightarrow> b_constants s' n \<noteq> None"
  by (auto simp: constant_decl_def Let_def split: if_splits option.splits)

lemma address_space_registers:
  "address_space (n, sz, lb, lp, at) s = (Return a, s') \<Longrightarrow> b_address_spaces s' n \<noteq> None"
  by (auto simp: address_space_def Let_def split: if_splits option.splits sum.splits)

lemma register_registers:
  "register (n, sz, at) s = (Return r, s') \<Longrightarrow> b_registers s' n \<noteq> None"
  by (auto simp: register_def Let_def split: if_splits option.splits sum.splits)

lemma register_file_registers:
  "register_file (rng, n, sz, at) s = (Return r, s') \<Longrightarrow> b_register_file s' n \<noteq> None"
  by (auto simp: register_file_def Let_def split: if_splits option.splits sum.splits)

lemma register_alias_registers:
  "register_alias (n, sz, ac, ix, at) s = (Return r, s') \<Longrightarrow> b_register_alias s' n \<noteq> None"
  by (auto simp: register_alias_def Let_def split: if_splits option.splits sum.splits)


lemma extends_trans: "extends s t \<Longrightarrow> extends t u \<Longrightarrow> extends s u"
  by (simp add: extends_def)

lemma extends_constant_decl: "extends s (snd (constant_decl args s))"
  by (cases args) (auto simp: extends_def constant_decl_def Let_def split: option.splits)

lemma extends_constant_def: "extends s (snd (constant_def args s))"
  by (cases args) (auto simp: extends_def constant_def_def Let_def split: option.splits)

lemma extends_address_space: "extends s (snd (address_space args s))"
  by (cases args)
    (auto simp: extends_def address_space_def Let_def split: option.splits sum.splits)

lemma extends_register: "extends s (snd (register args s))"
  by (cases args)
    (auto simp: extends_def register_def Let_def split: option.splits sum.splits)

lemma extends_register_file: "extends s (snd (register_file args s))"
  by (cases args)
    (auto simp: extends_def register_file_def Let_def split: option.splits sum.splits)

lemma extends_register_alias: "extends s (snd (register_alias args s))"
  by (cases args)
    (auto simp: extends_def register_alias_def Let_def split: option.splits sum.splits)

lemma extends_bit_field: "extends s (snd (bit_field args s))"
  by (cases args) (auto simp: extends_def bit_field_def Let_def)

lemma extends_instruction: "extends s (snd (instruction derive args s))"
  by (cases args) (auto simp: extends_def instruction_def Let_def split: option.splits)

lemma extends_register_default: "extends s (snd (register_default args s))"
  by (cases args)
    (auto simp: extends_def register_default_def Let_def split: option.splits sum.splits)

lemma extends_core_def: "extends s (snd (core_def args s))"
  by (cases args) (auto simp: extends_def core_def_def Let_def)

lemma reaches_extends: "reaches derive s t \<Longrightarrow> extends s t"
proof (induction rule: reaches.induct)
  case (no_reduction s)
  then show ?case by (simp add: extends_def)
next
  case (after_constant_decl s t args)
  then show ?case using extends_constant_decl extends_trans by blast
next
  case (after_constant_def s t args)
  then show ?case using extends_constant_def extends_trans by blast
next
  case (after_address_space s t args)
  then show ?case using extends_address_space extends_trans by blast
next
  case (after_register s t args)
  then show ?case using extends_register extends_trans by blast
next
  case (after_register_file s t args)
  then show ?case using extends_register_file extends_trans by blast
next
  case (after_register_alias s t args)
  then show ?case using extends_register_alias extends_trans by blast
next
  case (after_bit_field s t args)
  then show ?case using extends_bit_field extends_trans by blast
next
  case (after_instruction s t args)
  then show ?case using extends_instruction extends_trans by blast
next
  case (after_register_default s t args)
  then show ?case using extends_register_default extends_trans by blast
next
  case (after_core_def s t args)
  then show ?case using extends_core_def extends_trans by blast
qed

lemma reaches_declared:
  assumes "reaches derive s t"
  shows "b_constants s n \<noteq> None \<Longrightarrow> b_constants t n \<noteq> None"
    and "b_address_spaces s n \<noteq> None \<Longrightarrow> b_address_spaces t n \<noteq> None"
    and "b_registers s n \<noteq> None \<Longrightarrow> b_registers t n \<noteq> None"
    and "b_register_file s n \<noteq> None \<Longrightarrow> b_register_file t n \<noteq> None"
    and "b_register_alias s n \<noteq> None \<Longrightarrow> b_register_alias t n \<noteq> None"
  using reaches_extends [OF assms] by (simp_all add: extends_def)

text \<open>
  Claim C1. In every builder state, each of the five declaration handlers
  (\<^verbatim>\<open>constant_decl\<close>, \<^verbatim>\<open>address_space\<close>, \<^verbatim>\<open>register\<close>,
  \<^verbatim>\<open>register_file\<close>, \<^verbatim>\<open>register_alias\<close>) called with a name that is
  already in the table of its own kind raises the \<^verbatim>\<open>ValueError\<close> of the
  duplicate check, a DuplicateDeclarationError, and leaves the state as it was: no
  entity is constructed and none is merged. After a successful first call, a second
  call with the same name, whatever its other arguments, and whatever reductions have
  been made in between, is such a failure.
\<close>

theorem declaration_handlers_reject_duplicates:
  "(b_constants s n \<noteq> None \<longrightarrow>
      fails_with DuplicateDeclarationError s (constant_decl (n, v) s))
   \<and> (b_address_spaces s n \<noteq> None \<longrightarrow>
      fails_with DuplicateDeclarationError s (address_space (n, sz, lb, lp, at) s))
   \<and> (b_registers s n \<noteq> None \<longrightarrow>
      fails_with DuplicateDeclarationError s (register (n, sz, at) s))
   \<and> (b_register_file s n \<noteq> None \<longrightarrow>
      fails_with DuplicateDeclarationError s (register_file (rng, n, sz, at) s))
   \<and> (b_register_alias s n \<noteq> None \<longrightarrow>
      fails_with DuplicateDeclarationError s (register_alias (n, sz, ac, ix, at) s))
   \<and> (constant_decl (n, v) s = (Return c, s1) \<and> reaches derive s1 t1 \<longrightarrow>
      fails_with DuplicateDeclarationError t1 (constant_decl (n, v') t1))
   \<and> (address_space (n, sz, lb, lp, at) s = (Return a, s2) \<and> reaches derive s2 t2 \<longrightarrow>
      fails_with DuplicateDeclarationError t2 (address_space (n, sz', lb', lp', at') t2))
   \<and> (register (n, sz, at) s = (Return r, s3) \<and> reaches derive s3 t3 \<longrightarrow>
      fails_with DuplicateDeclarationError t3 (register (n, sz', at') t3))
   \<and> (register_file (rng, n, sz, at) s = (Return f, s4) \<and> reaches derive s4 t4 \<longrightarrow>
      fails_with DuplicateDeclarationError t4 (register_file (rng', n, sz', at') t4))
   \<and> (register_alias (n, sz, ac, ix, at) s = (Return ra, s5) \<and> reaches derive s5 t5 \<longrightarrow>
      fails_with DuplicateDeclarationError t5 (register_alias (n, sz', ac', ix', at') t5))"
proof (intro conjI impI)
  assume "b_constants s n \<noteq> None"
  then show "fails_with DuplicateDeclarationError s (constant_decl (n, v) s)"
    by (simp add: constant_decl_dup fails_with_def)
next
  assume "b_address_spaces s n \<noteq> None"
  then show "fails_with DuplicateDeclarationError s (address_space (n, sz, lb, lp, at) s)"
    by (simp add: address_space_dup fails_with_def)
next
  assume "b_registers s n \<noteq> None"
  then show "fails_with DuplicateDeclarationError s (register (n, sz, at) s)"
    by (simp add: register_dup fails_with_def)
next
  assume "b_register_file s n \<noteq> None"
  then show "fails_with DuplicateDeclarationError s (register_file (rng, n, sz, at) s)"
    by (simp add: register_file_dup fails_with_def)
next
  assume "b_register_alias s n \<noteq> None"
  then show "fails_with DuplicateDeclarationError s (register_alias (n, sz, ac, ix, at) s)"
    by (simp add: register_alias_dup fails_with_def)
next
  assume h: "constant_decl (n, v) s = (Return c, s1) \<and> reaches derive s1 t1"
  then have now: "b_constants s1 n \<noteq> None" using constant_decl_registers by blast
  from h have "reaches derive s1 t1" by simp
  from reaches_declared(1) [OF this now] have "b_constants t1 n \<noteq> None" .
  then show "fails_with DuplicateDeclarationError t1 (constant_decl (n, v') t1)"
    by (simp add: constant_decl_dup fails_with_def)
next
  assume h: "address_space (n, sz, lb, lp, at) s = (Return a, s2) \<and> reaches derive s2 t2"
  then have now: "b_address_spaces s2 n \<noteq> None" using address_space_registers by blast
  from h have "reaches derive s2 t2" by simp
  from reaches_declared(2) [OF this now] have "b_address_spaces t2 n \<noteq> None" .
  then show "fails_with DuplicateDeclarationError t2 (address_space (n, sz', lb', lp', at') t2)"
    by (simp add: address_space_dup fails_with_def)
next
  assume h: "register (n, sz, at) s = (Return r, s3) \<and> reaches derive s3 t3"
  then have now: "b_registers s3 n \<noteq> None" using register_registers by blast
  from h have "reaches derive s3 t3" by simp
  from reaches_declared(3) [OF this now] have "b_registers t3 n \<noteq> None" .
  then show "fails_with DuplicateDeclarationError t3 (register (n, sz', at') t3)"
    by (simp add: register_dup fails_with_def)
next
  assume h: "register_file (rng, n, sz, at) s = (Return f, s4) \<and> reaches derive s4 t4"
  then have now: "b_register_file s4 n \<noteq> None" using register_file_registers by blast
  from h have "reaches derive s4 t4" by simp
  from reaches_declared(4) [OF this now] have "b_register_file t4 n \<noteq> None" .
  then show "fails_with DuplicateDeclarationError t4 (register_file (rng', n, sz', at') t4)"
    by (simp add: register_file_dup fails_with_def)
next
  assume h: "register_alias (n, sz, ac, ix, at) s = (Return ra, s5) \<and> reaches derive s5 t5"
  then have now: "b_register_alias s5 n \<noteq> None" using register_alias_registers by blast
  from h have "reaches derive s5 t5" by simp
  from reaches_declared(5) [OF this now] have "b_register_alias t5 n \<noteq> None" .
  then show "fails_with DuplicateDeclarationError t5 (register_alias (n, sz', ac', ix', at') t5)"
    by (simp add: register_alias_dup fails_with_def)
qed

lemma populated_tables:
  "b_constants populated ''X'' \<noteq> None"
  "b_address_spaces populated ''X'' \<noteq> None"
  "b_registers populated ''X'' \<noteq> None"
  "b_register_file populated ''X'' \<noteq> None"
  "b_register_alias populated ''X'' \<noteq> None"
  by (simp_all add: populated_def init_def constant_decl_def address_space_def
      register_def register_file_def register_alias_def actual_reg_def parent_mem_def Let_def)

lemma first_declarations:
  "constant_decl (''X'', Some 1) (init :: unit builder) =
     (Return \<lparr> c_name = ''X'', c_value = Some 1, c_attributes = {} \<rparr>,
      snd (constant_decl (''X'', Some 1) init))"
  "address_space (''X'', PInt 8, PInt 4, None, {}) (init :: unit builder) =
     (Return \<lparr> as_name = ''X'', as_length_base = PInt 4, as_length_power = PInt 1,
        as_size = PInt 8, as_attributes = {} \<rparr>,
      snd (address_space (''X'', PInt 8, PInt 4, None, {}) init))"
  "register (''X'', PInt 32, {}) (init :: unit builder) =
     (Return \<lparr> r_name = ''X'', r_attributes = {}, r_initval = None, r_size = PInt 32 \<rparr>,
      snd (register (''X'', PInt 32, {}) init))"
  "register_file (RangeSpec [PInt 31, PInt 0], ''X'', PInt 32, {}) (init :: unit builder) =
     (Return \<lparr> rf_name = ''X'', rf_range = RangeSpec [PInt 31, PInt 0], rf_attributes = {},
        rf_size = PInt 32 \<rparr>,
      snd (register_file (RangeSpec [PInt 31, PInt 0], ''X'', PInt 32, {}) init))"
  by (simp_all add: init_def constant_decl_def address_space_def
      register_def register_file_def Let_def)

theorem declaration_handlers_reject_duplicates_witness:
  "fails_with DuplicateDeclarationError populated (constant_decl (''X'', Some 2) populated)
   \<and> fails_with DuplicateDeclarationError populated
        (address_space (''X'', PInt 8, PInt 4, None, {}) populated)
   \<and> fails_with DuplicateDeclarationError populated (register (''X'', PInt 8, {}) populated)
   \<and> fails_with DuplicateDeclarationError populated
        (register_file (RangeSpec [PInt 15, PInt 0], ''X'', PInt 8, {}) populated)
   \<and> fails_with DuplicateDeclarationError populated
        (register_alias (''X'', PInt 8, ''X'', IndexVal (PInt 1), {}) populated)
   \<and> fails_with DuplicateDeclarationError
        (snd (register (''X'', PInt 32, {})
          (snd (constant_decl (''X'', Some 1) (init :: unit builder)))))
        (constant_decl (''X'', Some 2)
          (snd (register (''X'', PInt 32, {}) (snd (constant_decl (''X'', Some 1) init)))))
   \<and> fails_with DuplicateDeclarationError
        (snd (register (''X'', PInt 32, {}) (init :: unit builder)))
        (register (''X'', PInt 16, {}) (snd (register (''X'', PInt 32, {}) init)))"
proof -
  have later: "reaches width_key (snd (constant_decl (''X'', Some 1) (init :: unit builder)))
      (snd (register (''X'', PInt 32, {}) (snd (constant_decl (''X'', Some 1) init))))"
    by (intro reaches.intros)
  have at_once: "reaches width_key (snd (register (''X'', PInt 32, {}) (init :: unit builder)))
      (snd (register (''X'', PInt 32, {}) init))"
    by (rule no_reduction)
  show ?thesis
    using declaration_handlers_reject_duplicates
          [where s = populated and n = "''X''" and v = "Some 2" and sz = "PInt 8"
             and lb = "PInt 4" and lp = None and at = "{}"
             and rng = "RangeSpec [PInt 15, PInt 0]" and ac = "''X''"
             and ix = "IndexVal (PInt 1)"]
        declaration_handlers_reject_duplicates
          [where s = "init :: unit builder" and n = "''X''" and v = "Some 1" and v' = "Some 2"
             and c = "\<lparr> c_name = ''X'', c_value = Some 1, c_attributes = {} \<rparr>"
             and ?s1.0 = "snd (constant_decl (''X'', Some 1) (init :: unit builder))"
             and ?t1.0 = "snd (register (''X'', PInt 32, {})
               (snd (constant_decl (''X'', Some 1) (init :: unit builder))))"
             and derive = width_key
             and sz = "PInt 32" and at = "{}" and sz' = "PInt 16" and at' = "{}"
             and r = "\<lparr> r_name = ''X'', r_attributes = {}, r_initval = None, r_size = PInt 32 \<rparr>"
             and ?s3.0 = "snd (register (''X'', PInt 32, {}) (init :: unit builder))"
             and ?t3.0 = "snd (register (''X'', PInt 32, {}) (init :: unit builder))"]
        populated_tables first_declarations later at_once
    by simp
qed

subsection \<open>Declaring and defining a constant\<close>

lemma init_tables:
  "b_constants init n = None"
  "b_address_spaces init n = None"
  "b_registers init n = None"
  "b_register_file init n = None"
  "b_register_alias init n = None"
  "b_memories init n = None"
  "b_memory_aliases init n = None"
  "b_instructions init k = None"
  "store init = []"
  "stdout init = []"
  by (simp_all add: init_def)

lemma populated_constant:
  "b_constants populated ''X'' = Some \<lparr> c_name = ''X'', c_value = Some 1, c_attributes = {} \<rparr>"
  by (simp add: populated_def init_def constant_decl_def address_space_def
      register_def register_file_def register_alias_def actual_reg_def parent_mem_def Let_def)

text \<open>
  Claim C8. For a name that is already in the constant table,
  \<^verbatim>\<open>constant_decl\<close> fails with a DuplicateDeclarationError, whereas
  \<^verbatim>\<open>constant_def\<close> does not raise: it updates the value and the attributes of
  the Constant stored under the name, which keeps its name, and the table keeps its
  keys, so no second entity appears. For a name that is not in the table,
  \<^verbatim>\<open>constant_def\<close> creates a Constant and registers it under the name.
\<close>

theorem constant_redeclaration:
  "(b_constants s n = Some c \<longrightarrow>
      fails_with DuplicateDeclarationError s (constant_decl (n, v) s))
   \<and> (b_constants s n = Some c \<longrightarrow>
      constant_def (n, v, at) s =
        (Return (c\<lparr> c_value := v, c_attributes := at \<rparr>),
         s\<lparr> b_constants := (b_constants s)(n \<mapsto> c\<lparr> c_value := v, c_attributes := at \<rparr>) \<rparr>)
      \<and> dom (b_constants (snd (constant_def (n, v, at) s))) = dom (b_constants s))
   \<and> (b_constants s n = None \<longrightarrow>
      constant_def (n, v, at) s =
        (Return \<lparr> c_name = n, c_value = v, c_attributes = at \<rparr>,
         s\<lparr> b_constants :=
           (b_constants s)(n \<mapsto> \<lparr> c_name = n, c_value = v, c_attributes = at \<rparr>) \<rparr>)
      \<and> dom (b_constants (snd (constant_def (n, v, at) s))) = insert n (dom (b_constants s)))"
  by (auto simp: constant_def_def constant_decl_dup fails_with_def Let_def)

theorem constant_redeclaration_witness:
  "fails_with DuplicateDeclarationError populated (constant_decl (''X'', Some 7) populated)
   \<and> constant_def (''X'', Some 7, {ConstAttribute ''IS_REG_WIDTH''}) populated =
        (Return \<lparr> c_name = ''X'', c_value = Some 7,
                  c_attributes = {ConstAttribute ''IS_REG_WIDTH''} \<rparr>,
         populated\<lparr> b_constants := (b_constants populated)(''X'' \<mapsto>
           \<lparr> c_name = ''X'', c_value = Some 7,
             c_attributes = {ConstAttribute ''IS_REG_WIDTH''} \<rparr>) \<rparr>)
   \<and> constant_def (''Y'', Some 7, {}) (init :: unit builder) =
        (Return \<lparr> c_name = ''Y'', c_value = Some 7, c_attributes = {} \<rparr>,
         init\<lparr> b_constants := (b_constants (init :: unit builder))(''Y'' \<mapsto>
           \<lparr> c_name = ''Y'', c_value = Some 7, c_attributes = {} \<rparr>) \<rparr>)"
  using constant_redeclaration
          [where s = populated and n = "''X''" and v = "Some 7"
             and at = "{ConstAttribute ''IS_REG_WIDTH''}"
             and c = "\<lparr> c_name = ''X'', c_value = Some 1, c_attributes = {} \<rparr>"]
        constant_redeclaration
          [where s = "init :: unit builder" and n = "''Y''" and v = "Some 7" and at = "{}"]
        populated_constant
  by (simp add: init_tables)

subsection \<open>Default values of registers\<close>

lemma populated_registers:
  "b_register_alias populated ''X'' =
     Some \<lparr> ra_name = ''X'', ra_actual = InRegisterFile ''X'', ra_index = IndexVal (PInt 0),
            ra_attributes = {}, ra_initval = None, ra_size = PInt 8 \<rparr>"
  "b_registers populated ''X'' =
     Some \<lparr> r_name = ''X'', r_attributes = {}, r_initval = None, r_size = PInt 32 \<rparr>"
  by (simp_all add: populated_def init_def constant_decl_def address_space_def
      register_def register_file_def register_alias_def actual_reg_def parent_mem_def Let_def)

lemma with_X0_registers:
  "b_register_alias with_X0 ''X0'' = None"
  "b_registers with_X0 ''X0'' =
     Some \<lparr> r_name = ''X0'', r_attributes = {}, r_initval = None, r_size = PInt 32 \<rparr>"
  by (simp_all add: with_X0_def init_def register_def Let_def)

text \<open>
  Claim C7. \<^verbatim>\<open>register_default\<close> on a name that is neither in the alias table
  nor in the register table fails with an UnresolvedReferenceError (the failed
  \<^verbatim>\<open>assert\<close>) and changes nothing; so it does in a builder in which nothing has
  been declared yet. The alias table is probed first: a name found there gets the
  default, also when the register table holds the name too; a name found in the
  register table only gets it there. When the name is found and the value resolves
  (an integer, or the name of a declared constant, which resolves to the Constant
  object), the default of the object found is assigned in place and the reduction
  raises \<^verbatim>\<open>Discard\<close>: it yields no tree value.
\<close>

theorem register_default_lookup:
  "(b_register_alias s n = None \<and> b_registers s n = None \<longrightarrow>
      fails_with UnresolvedReferenceError s (register_default (n, v) s))
   \<and> (b_register_alias s n = Some a \<and> get_constant_or_val s v = Inr val \<longrightarrow>
      register_default (n, v) s =
        (Discard, s\<lparr> b_register_alias :=
           (b_register_alias s)(n \<mapsto> a\<lparr> ra_initval := Some val \<rparr>) \<rparr>))
   \<and> (b_register_alias s n = None \<and> b_registers s n = Some r
        \<and> get_constant_or_val s v = Inr val \<longrightarrow>
      register_default (n, v) s =
        (Discard, s\<lparr> b_registers :=
           (b_registers s)(n \<mapsto> r\<lparr> r_initval := Some val \<rparr>) \<rparr>))"
  by (simp add: register_default_def fails_with_def)


theorem register_default_lookup_witness:
  "fails_with UnresolvedReferenceError (init :: unit builder)
     (register_default (''X0'', PInt 5) init)
   \<and> register_default (''X'', PStr ''X'') populated =
        (Discard, populated\<lparr> b_register_alias := (b_register_alias populated)(''X'' \<mapsto>
           \<lparr> ra_name = ''X'', ra_actual = InRegisterFile ''X'', ra_index = IndexVal (PInt 0),
             ra_attributes = {}, ra_initval = Some (PConst ''X''), ra_size = PInt 8 \<rparr>) \<rparr>)
   \<and> register_default (''X0'', PInt 5) with_X0 =
        (Discard, with_X0\<lparr> b_registers := (b_registers with_X0)(''X0'' \<mapsto>
           \<lparr> r_name = ''X0'', r_attributes = {}, r_initval = Some (PInt 5),
             r_size = PInt 32 \<rparr>) \<rparr>)"
  using register_default_lookup
          [where s = "init :: unit builder" and n = "''X0''" and v = "PInt 5"]
        register_default_lookup
          [where s = populated and n = "''X''" and v = "PStr ''X''" and val = "PConst ''X''"
             and a = "\<lparr> ra_name = ''X'', ra_actual = InRegisterFile ''X'',
               ra_index = IndexVal (PInt 0), ra_attributes = {}, ra_initval = None,
               ra_size = PInt 8 \<rparr>"]
        register_default_lookup
          [where s = with_X0 and n = "''X0''" and v = "PInt 5" and val = "PInt 5"
             and r = "\<lparr> r_name = ''X0'', r_attributes = {}, r_initval = None,
               r_size = PInt 32 \<rparr>"]
        populated_registers populated_constant with_X0_registers
  by (simp add: init_tables)


subsection \<open>The actual register of an alias\<close>

lemma parent_mem_alias_update [simp]:
  "parent_mem (s\<lparr> b_register_alias := t \<rparr>) actual = parent_mem s actual"
  by (simp add: parent_mem_def split: option.splits)

lemma register_alias_Return:
  assumes "register_alias (name, sz, actual, ix, at) s = (Return r, s')"
  shows "\<exists>areg sz' p.
     b_register_alias s name = None
     \<and> actual_reg s actual = Some areg
     \<and> get_constant_or_val s sz = Inr sz'
     \<and> parent_mem s actual = Some p
     \<and> r = \<lparr> ra_name = name, ra_actual = areg, ra_index = ix, ra_attributes = at,
             ra_initval = None, ra_size = sz' \<rparr>
     \<and> s' = s\<lparr> b_register_alias := (b_register_alias s)(name \<mapsto> r),
            store := (store s @ [\<lparr> m_name = name,
                m_range = (case ix of IndexRange rs \<Rightarrow> rs | IndexVal i \<Rightarrow> RangeSpec [i, i]),
                m_size = sz', m_attributes = at, m_children = [] \<rparr>])
              [p := ((store s @ [\<lparr> m_name = name,
                m_range = (case ix of IndexRange rs \<Rightarrow> rs | IndexVal i \<Rightarrow> RangeSpec [i, i]),
                m_size = sz', m_attributes = at, m_children = [] \<rparr>]) ! p)
                 \<lparr> m_children := m_children ((store s @ [\<lparr> m_name = name,
                m_range = (case ix of IndexRange rs \<Rightarrow> rs | IndexVal i \<Rightarrow> RangeSpec [i, i]),
                m_size = sz', m_attributes = at, m_children = [] \<rparr>]) ! p)
                    @ [length (store s)] \<rparr>],
            b_memory_aliases := (b_memory_aliases s)(name \<mapsto> length (store s)) \<rparr>"
  using assms
  by (auto simp: register_alias_def Let_def split: if_splits option.splits sum.splits)

lemma register_alias_succeeds:
  assumes "b_register_alias s name = None"
    and "actual_reg s actual = Some areg"
    and "get_constant_or_val s sz = Inr sz'"
    and "parent_mem s actual = Some p"
  shows "\<exists>s'. register_alias (name, sz, actual, ix, at) s =
     (Return \<lparr> ra_name = name, ra_actual = areg, ra_index = ix, ra_attributes = at,
             ra_initval = None, ra_size = sz' \<rparr>, s')"
  using assms by (simp add: register_alias_def Let_def)

lemma actual_reg_tables:
  "actual_reg s n =
     (if b_register_file s n \<noteq> None then Some (InRegisterFile n)
      else if b_registers s n \<noteq> None then Some (InRegisters n)
      else if b_register_alias s n \<noteq> None then Some (InRegisterAlias n)
      else None)"
  by (auto simp: actual_reg_def split: option.splits)

lemma with_X0_tables:
  "b_register_file with_X0 n = None"
  "b_register_alias with_X0 n = None"
  "b_registers with_X0 ''X0'' =
     Some \<lparr> r_name = ''X0'', r_attributes = {}, r_initval = None, r_size = PInt 32 \<rparr>"
  "b_registers with_X0 ''X1'' = None"
  "b_memories with_X0 ''X0'' = Some 0"
  "b_constants with_X0 n = None"
  "store with_X0 =
     [\<lparr> m_name = ''X0'', m_range = RangeSpec [PInt 0, PInt 0], m_size = PInt 32,
        m_attributes = {}, m_children = [] \<rparr>]"
  "b_address_spaces with_X0 n = None"
  "b_registers with_X0 ''X0L'' = None"
  by (simp_all add: with_X0_def init_def register_def Let_def)

lemma with_X0_alias_range_outcome:
  "fst (register_alias (''X0L'', PInt 16, ''X0'', IndexRange (RangeSpec [PInt 15, PInt 0]), {})
     with_X0) =
   Return \<lparr> ra_name = ''X0L'', ra_actual = InRegisters ''X0'',
       ra_index = IndexRange (RangeSpec [PInt 15, PInt 0]), ra_attributes = {},
       ra_initval = None, ra_size = PInt 16 \<rparr>"
  by (simp add: register_alias_def actual_reg_def parent_mem_def with_X0_tables Let_def)

lemma with_X0_alias_range:
  "register_alias (''X0L'', PInt 16, ''X0'', IndexRange (RangeSpec [PInt 15, PInt 0]), {})
     with_X0 =
   (Return \<lparr> ra_name = ''X0L'', ra_actual = InRegisters ''X0'',
       ra_index = IndexRange (RangeSpec [PInt 15, PInt 0]), ra_attributes = {},
       ra_initval = None, ra_size = PInt 16 \<rparr>,
    snd (register_alias (''X0L'', PInt 16, ''X0'', IndexRange (RangeSpec [PInt 15, PInt 0]), {})
      with_X0))"
  by (simp add: prod_eq_iff with_X0_alias_range_outcome)

lemma with_X0_alias_index_outcome:
  "fst (register_alias (''X0L'', PInt 16, ''X0'', IndexVal (PInt 3), {}) with_X0) =
   Return \<lparr> ra_name = ''X0L'', ra_actual = InRegisters ''X0'',
       ra_index = IndexVal (PInt 3), ra_attributes = {},
       ra_initval = None, ra_size = PInt 16 \<rparr>"
  by (simp add: register_alias_def actual_reg_def parent_mem_def with_X0_tables Let_def)

lemma with_X0_alias_index:
  "register_alias (''X0L'', PInt 16, ''X0'', IndexVal (PInt 3), {}) with_X0 =
   (Return \<lparr> ra_name = ''X0L'', ra_actual = InRegisters ''X0'',
       ra_index = IndexVal (PInt 3), ra_attributes = {},
       ra_initval = None, ra_size = PInt 16 \<rparr>,
    snd (register_alias (''X0L'', PInt 16, ''X0'', IndexVal (PInt 3), {}) with_X0))"
  by (simp add: prod_eq_iff with_X0_alias_index_outcome)

text \<open>
  Claim C4. A \<^verbatim>\<open>register_alias\<close> reduction whose alias name is not yet declared
  (a declared one is rejected before anything is resolved, claim C1) resolves its
  actual register \<open>n\<close> by probing the register-file table, then the register table,
  then the alias table: the alias it returns and stores refers to the object of the
  first of the three tables that holds \<open>n\<close>. If none of them holds \<open>n\<close> it fails with
  an UnresolvedReferenceError (the failed \<^verbatim>\<open>assert\<close>), the state unchanged. If
  one does, the size resolves and \<open>n\<close> has a Memory view, the reduction returns.
\<close>

theorem register_alias_resolves_actual:
  assumes "b_register_alias s name = None"
  shows "(b_register_file s n = None \<and> b_registers s n = None \<and> b_register_alias s n = None
            \<longrightarrow> fails_with UnresolvedReferenceError s (register_alias (name, sz, n, ix, at) s))
    \<and> (register_alias (name, sz, n, ix, at) s = (Return r, s') \<longrightarrow>
          ra_actual r = (if b_register_file s n \<noteq> None then InRegisterFile n
                         else if b_registers s n \<noteq> None then InRegisters n
                         else InRegisterAlias n)
          \<and> (b_register_file s n \<noteq> None \<or> b_registers s n \<noteq> None
               \<or> b_register_alias s n \<noteq> None)
          \<and> b_register_alias s' name = Some r)
    \<and> ((b_register_file s n \<noteq> None \<or> b_registers s n \<noteq> None \<or> b_register_alias s n \<noteq> None)
          \<and> resolves s sz \<and> (b_memories s n \<noteq> None \<or> b_memory_aliases s n \<noteq> None)
            \<longrightarrow> (\<exists>r s'. register_alias (name, sz, n, ix, at) s = (Return r, s')))"
proof (intro conjI impI)
  assume "b_register_file s n = None \<and> b_registers s n = None \<and> b_register_alias s n = None"
  then have "actual_reg s n = None" by (simp add: actual_reg_tables)
  with assms show "fails_with UnresolvedReferenceError s (register_alias (name, sz, n, ix, at) s)"
    by (simp add: register_alias_def fails_with_def)
next
  assume ret: "register_alias (name, sz, n, ix, at) s = (Return r, s')"
  from register_alias_Return [OF ret] obtain areg where
    a: "actual_reg s n = Some areg" and r: "ra_actual r = areg"
    and s': "b_register_alias s' name = Some r"
    by auto
  from a r show "ra_actual r = (if b_register_file s n \<noteq> None then InRegisterFile n
                         else if b_registers s n \<noteq> None then InRegisters n
                         else InRegisterAlias n)"
    by (auto simp: actual_reg_tables split: if_splits)
  from a show "b_register_file s n \<noteq> None \<or> b_registers s n \<noteq> None
               \<or> b_register_alias s n \<noteq> None"
    by (auto simp: actual_reg_tables split: if_splits)
  from s' show "b_register_alias s' name = Some r" .
next
  assume h: "(b_register_file s n \<noteq> None \<or> b_registers s n \<noteq> None \<or> b_register_alias s n \<noteq> None)
          \<and> resolves s sz \<and> (b_memories s n \<noteq> None \<or> b_memory_aliases s n \<noteq> None)"
  then have "actual_reg s n \<noteq> None"
    by (auto simp: actual_reg_tables)
  then obtain areg where a: "actual_reg s n = Some areg"
    by blast
  from h obtain sz' where z: "get_constant_or_val s sz = Inr sz'"
    by (cases "get_constant_or_val s sz") (auto simp: resolves_def)
  from h have "parent_mem s n \<noteq> None"
    by (auto simp: parent_mem_def split: option.splits)
  then obtain p where p: "parent_mem s n = Some p"
    by blast
  from register_alias_succeeds [OF assms a z p]
  show "\<exists>r s'. register_alias (name, sz, n, ix, at) s = (Return r, s')"
    by blast
qed

theorem register_alias_resolves_actual_witness:
  "b_register_alias with_X0 ''X0L'' = None
   \<and> fails_with UnresolvedReferenceError with_X0
       (register_alias (''X0L'', PInt 16, ''X1'', IndexRange (RangeSpec [PInt 15, PInt 0]), {})
          with_X0)
   \<and> fst (register_alias (''X0L'', PInt 16, ''X0'', IndexRange (RangeSpec [PInt 15, PInt 0]), {})
          with_X0) =
       Return \<lparr> ra_name = ''X0L'', ra_actual = InRegisters ''X0'',
         ra_index = IndexRange (RangeSpec [PInt 15, PInt 0]), ra_attributes = {},
         ra_initval = None, ra_size = PInt 16 \<rparr>
   \<and> b_register_alias (snd (register_alias
         (''X0L'', PInt 16, ''X0'', IndexRange (RangeSpec [PInt 15, PInt 0]), {}) with_X0))
         ''X0L'' =
       Some \<lparr> ra_name = ''X0L'', ra_actual = InRegisters ''X0'',
         ra_index = IndexRange (RangeSpec [PInt 15, PInt 0]), ra_attributes = {},
         ra_initval = None, ra_size = PInt 16 \<rparr>"
proof -
  have free: "b_register_alias with_X0 ''X0L'' = None"
    by (simp add: with_X0_tables)
  have absent: "b_register_file with_X0 ''X1'' = None \<and> b_registers with_X0 ''X1'' = None
      \<and> b_register_alias with_X0 ''X1'' = None"
    by (simp add: with_X0_tables)
  from register_alias_resolves_actual [OF free, where n = "''X1''"] absent
  have "fails_with UnresolvedReferenceError with_X0
       (register_alias (''X0L'', PInt 16, ''X1'', IndexRange (RangeSpec [PInt 15, PInt 0]), {})
          with_X0)"
    by blast
  moreover
  from register_alias_resolves_actual [OF free, where n = "''X0''"] with_X0_alias_range
  have "b_register_alias (snd (register_alias
         (''X0L'', PInt 16, ''X0'', IndexRange (RangeSpec [PInt 15, PInt 0]), {}) with_X0))
         ''X0L'' =
       Some \<lparr> ra_name = ''X0L'', ra_actual = InRegisters ''X0'',
         ra_index = IndexRange (RangeSpec [PInt 15, PInt 0]), ra_attributes = {},
         ra_initval = None, ra_size = PInt 16 \<rparr>"
    by blast
  ultimately show ?thesis
    using free with_X0_alias_range_outcome by simp
qed

subsection \<open>The store stays well-formed\<close>

lemma parent_mem_tables:
  "parent_mem s actual = Some p \<longleftrightarrow>
     (b_memories s actual = Some p
      \<or> (b_memories s actual = None \<and> b_memory_aliases s actual = Some p))"
  by (auto simp: parent_mem_def split: option.splits)

lemma wf_store_parent:
  "wf_store s \<Longrightarrow> parent_mem s actual = Some p \<Longrightarrow> p < length (store s)"
  by (auto simp: wf_store_def parent_mem_tables)

lemma wf_store_child:
  "wf_store s \<Longrightarrow> p < length (store s) \<Longrightarrow> c \<in> set (m_children (store s ! p)) \<Longrightarrow>
   c < length (store s) \<and> b_register_alias s (m_name (store s ! c)) \<noteq> None"
  unfolding wf_store_def using nth_mem by blast

lemma wf_store_init: "wf_store init"
  by (simp add: wf_store_def init_def)

lemma wf_store_same:
  assumes "wf_store s"
    and "store s' = store s"
    and "b_memories s' = b_memories s"
    and "b_memory_aliases s' = b_memory_aliases s"
    and "\<And>n. b_register_alias s n \<noteq> None \<Longrightarrow> b_register_alias s' n \<noteq> None"
  shows "wf_store s'"
  using assms unfolding wf_store_def by auto

lemma wf_store_alloc:
  assumes wf: "wf_store s"
    and st: "store s' = store s @ [m]"
    and ch: "m_children m = []"
    and mem: "b_memories s' = (b_memories s)(n \<mapsto> length (store s))"
    and mal: "b_memory_aliases s' = b_memory_aliases s"
    and ali: "b_register_alias s' = b_register_alias s"
  shows "wf_store s'"
  unfolding wf_store_def
proof (intro conjI allI impI ballI)
  fix k p assume "b_memories s' k = Some p"
  with wf show "p < length (store s')"
    by (auto simp: mem st wf_store_def less_Suc_eq split: if_splits)
next
  fix k p assume "b_memory_aliases s' k = Some p"
  with wf show "p < length (store s')"
    by (auto simp: mal st wf_store_def less_Suc_eq)
next
  fix x c assume x: "x \<in> set (store s')" and c: "c \<in> set (m_children x)"
  from x c ch have "x \<in> set (store s)" by (auto simp: st)
  with wf c have lt: "c < length (store s)"
    and al: "b_register_alias s (m_name (store s ! c)) \<noteq> None"
    by (auto simp: wf_store_def)
  from lt show "c < length (store s')" by (simp add: st)
  from lt al show "b_register_alias s' (m_name (store s' ! c)) \<noteq> None"
    by (simp add: st ali nth_append)
qed

lemma wf_store_link:
  assumes wf: "wf_store s"
    and p: "p < length (store s)"
    and st: "store s' = (store s @ [m])
               [p := ((store s @ [m]) ! p)
                  \<lparr> m_children := m_children ((store s @ [m]) ! p) @ [length (store s)] \<rparr>]"
    and ch: "m_children m = []"
    and nm: "m_name m = name"
    and mem: "b_memories s' = b_memories s"
    and mal: "b_memory_aliases s' = (b_memory_aliases s)(name \<mapsto> length (store s))"
    and ali: "b_register_alias s' = (b_register_alias s)(name \<mapsto> r)"
  shows "wf_store s'"
proof -
  have len: "length (store s') = Suc (length (store s))"
    by (simp add: st)
  have names: "m_name (store s' ! c) = m_name (store s ! c)" if "c < length (store s)" for c
    using that p by (cases "c = p") (simp_all add: st nth_append)
  have at_new: "store s' ! length (store s) = m"
    using p by (simp add: st nth_append)
  have keep: "b_register_alias s' k \<noteq> None" if "b_register_alias s k \<noteq> None" for k
    using that by (simp add: ali)
  have old: "c < length (store s') \<and> b_register_alias s' (m_name (store s' ! c)) \<noteq> None"
    if "x \<in> set (store s)" and "c \<in> set (m_children x)" for x c
  proof -
    from wf that have lt: "c < length (store s)"
      and al: "b_register_alias s (m_name (store s ! c)) \<noteq> None"
      by (auto simp: wf_store_def)
    from lt al show ?thesis by (simp add: len names keep)
  qed
  have m1: "\<forall>k q. b_memories s' k = Some q \<longrightarrow> q < length (store s')"
    using wf by (auto simp: mem len wf_store_def less_Suc_eq)
  have m2: "\<forall>k q. b_memory_aliases s' k = Some q \<longrightarrow> q < length (store s')"
    using wf by (auto simp: mal len wf_store_def less_Suc_eq split: if_splits)
  have m3: "c < length (store s') \<and> b_register_alias s' (m_name (store s' ! c)) \<noteq> None"
    if x: "x \<in> set (store s')" and c: "c \<in> set (m_children x)" for x c
  proof -
    from x have "x = (store s ! p)\<lparr> m_children := m_children (store s ! p) @ [length (store s)] \<rparr>
        \<or> x \<in> set (store s) \<or> x = m"
      using p set_update_subset_insert [of "store s @ [m]" p]
      by (auto simp: st nth_append)
    then show ?thesis
    proof (elim disjE)
      assume xp: "x = (store s ! p)\<lparr> m_children := m_children (store s ! p) @ [length (store s)] \<rparr>"
      with c have "c \<in> set (m_children (store s ! p)) \<or> c = length (store s)"
        by auto
      then show ?thesis
      proof
        assume "c \<in> set (m_children (store s ! p))"
        with p old [of "store s ! p" c] show ?thesis by simp
      next
        assume "c = length (store s)"
        then show ?thesis by (simp add: len at_new nm ali)
      qed
    next
      assume "x \<in> set (store s)"
      with c old show ?thesis by blast
    next
      assume "x = m"
      with c ch show ?thesis by simp
    qed
  qed
  from m1 m2 m3 show ?thesis
    unfolding wf_store_def by blast
qed

lemma wf_store_constant_decl: "wf_store s \<Longrightarrow> wf_store (snd (constant_decl args s))"
  by (cases args)
    (auto simp: constant_decl_def Let_def split: option.splits elim: wf_store_same)

lemma wf_store_constant_def: "wf_store s \<Longrightarrow> wf_store (snd (constant_def args s))"
  by (cases args)
    (auto simp: constant_def_def Let_def split: option.splits elim: wf_store_same)

lemma wf_store_instruction: "wf_store s \<Longrightarrow> wf_store (snd (instruction derive args s))"
  by (cases args)
    (auto simp: instruction_def Let_def split: option.splits elim: wf_store_same)

lemma wf_store_bit_field: "wf_store s \<Longrightarrow> wf_store (snd (bit_field args s))"
  by (cases args)
    (auto simp: bit_field_def Let_def split: option.splits elim: wf_store_same)

lemma wf_store_register_default: "wf_store s \<Longrightarrow> wf_store (snd (register_default args s))"
  by (cases args)
    (auto simp: register_default_def Let_def split: option.splits sum.splits
       elim!: wf_store_same)

lemma wf_store_core_def: "wf_store s \<Longrightarrow> wf_store (snd (core_def args s))"
  by (cases args) (simp add: core_def_def)

lemma wf_store_address_space: "wf_store s \<Longrightarrow> wf_store (snd (address_space args s))"
  by (cases args)
    (auto simp: address_space_def Let_def split: option.splits sum.splits
       elim!: wf_store_alloc)

lemma wf_store_register: "wf_store s \<Longrightarrow> wf_store (snd (register args s))"
  by (cases args)
    (auto simp: register_def Let_def split: option.splits sum.splits elim!: wf_store_alloc)

lemma wf_store_register_file: "wf_store s \<Longrightarrow> wf_store (snd (register_file args s))"
  by (cases args)
    (auto simp: register_file_def Let_def split: option.splits sum.splits
       elim!: wf_store_alloc)


lemma register_alias_cases:
  "(\<exists>r s'. register_alias (name, sz, actual, ix, at) s = (Return r, s'))
   \<or> snd (register_alias (name, sz, actual, ix, at) s) = s
   \<or> (\<exists>r. snd (register_alias (name, sz, actual, ix, at) s) =
         s\<lparr> b_register_alias := (b_register_alias s)(name \<mapsto> r) \<rparr>)"
  by (auto simp: register_alias_def Let_def split: option.splits sum.splits)

lemma wf_store_register_alias:
  assumes wf: "wf_store s"
  shows "wf_store (snd (register_alias args s))"
proof -
  obtain name sz actual ix at where args: "args = (name, sz, actual, ix, at)"
    by (cases args)
  from register_alias_cases [of name sz actual ix at s]
  show ?thesis
  proof (elim disjE exE)
    fix r s' assume ret: "register_alias (name, sz, actual, ix, at) s = (Return r, s')"
    from register_alias_Return [OF ret] obtain sz' p where
      par: "parent_mem s actual = Some p"
      and s': "s' = s\<lparr> b_register_alias := (b_register_alias s)(name \<mapsto> r),
            store := (store s @ [\<lparr> m_name = name,
                m_range = (case ix of IndexRange rs \<Rightarrow> rs | IndexVal i \<Rightarrow> RangeSpec [i, i]),
                m_size = sz', m_attributes = at, m_children = [] \<rparr>])
              [p := ((store s @ [\<lparr> m_name = name,
                m_range = (case ix of IndexRange rs \<Rightarrow> rs | IndexVal i \<Rightarrow> RangeSpec [i, i]),
                m_size = sz', m_attributes = at, m_children = [] \<rparr>]) ! p)
                 \<lparr> m_children := m_children ((store s @ [\<lparr> m_name = name,
                m_range = (case ix of IndexRange rs \<Rightarrow> rs | IndexVal i \<Rightarrow> RangeSpec [i, i]),
                m_size = sz', m_attributes = at, m_children = [] \<rparr>]) ! p)
                    @ [length (store s)] \<rparr>],
            b_memory_aliases := (b_memory_aliases s)(name \<mapsto> length (store s)) \<rparr>"
      by blast
    from wf par have p: "p < length (store s)" by (rule wf_store_parent)
    have "wf_store s'"
      by (rule wf_store_link [OF wf p, where name = name and r = r and m = "\<lparr> m_name = name,
                m_range = (case ix of IndexRange rs \<Rightarrow> rs | IndexVal i \<Rightarrow> RangeSpec [i, i]),
                m_size = sz', m_attributes = at, m_children = [] \<rparr>"])
        (simp_all add: s')
    with ret args show ?thesis by simp
  next
    assume "snd (register_alias (name, sz, actual, ix, at) s) = s"
    with wf args show ?thesis by simp
  next
    fix r assume "snd (register_alias (name, sz, actual, ix, at) s) =
         s\<lparr> b_register_alias := (b_register_alias s)(name \<mapsto> r) \<rparr>"
    moreover have "wf_store (s\<lparr> b_register_alias := (b_register_alias s)(name \<mapsto> r) \<rparr>)"
      by (rule wf_store_same [OF wf]) simp_all
    ultimately show ?thesis using args by simp
  qed
qed

lemma with_X0_wf: "wf_store with_X0"
  unfolding with_X0_def by (rule wf_store_register [OF wf_store_init])

lemma reaches_wf_store: "reaches derive s t \<Longrightarrow> wf_store s \<Longrightarrow> wf_store t"
  by (induction rule: reaches.induct)
    (simp_all add: wf_store_constant_decl wf_store_constant_def wf_store_address_space
       wf_store_register wf_store_register_file wf_store_register_alias wf_store_bit_field
       wf_store_instruction wf_store_register_default wf_store_core_def)

lemma reachable_wf_store: "reaches derive init t \<Longrightarrow> wf_store t"
  by (rule reaches_wf_store [OF _ wf_store_init])

subsection \<open>The Memory view of an alias\<close>

text \<open>
  Claim C5, as amended. After a successful \<^verbatim>\<open>register_alias\<close> reduction for alias
  \<open>A\<close> over the actual register \<open>R\<close>, in a well-formed builder: the parent is the
  Memory object that the Memory table, or else the Memory-alias table, holds under the
  name of \<open>R\<close> at that time, whichever declaration has stored it there; a new Memory
  object named \<open>A\<close>, whose RangeSpec is the declared index range (a single index \<open>i\<close>
  gives \<open>RangeSpec(i, i)\<close>), is stored under \<open>A\<close> in the Memory-alias table and
  appended to the parent's child list; it occurs in that list exactly once, as an
  object and as a name; every other object of the store is unchanged.
\<close>

theorem register_alias_memory_child:
  assumes wf: "wf_store s"
    and ret: "register_alias (name, sz, actual, ix, at) s = (Return r, s')"
  shows "\<exists>p. (b_memories s actual = Some p
               \<or> (b_memories s actual = None \<and> b_memory_aliases s actual = Some p))
    \<and> p < length (store s)
    \<and> b_memory_aliases s' name = Some (length (store s))
    \<and> store s' ! length (store s) =
        \<lparr> m_name = name,
          m_range = (case ix of IndexRange rs \<Rightarrow> rs | IndexVal i \<Rightarrow> RangeSpec [i, i]),
          m_size = ra_size r, m_attributes = at, m_children = [] \<rparr>
    \<and> store s' ! p = (store s ! p)\<lparr> m_children := m_children (store s ! p) @ [length (store s)] \<rparr>
    \<and> count_list (m_children (store s' ! p)) (length (store s)) = 1
    \<and> length (filter (\<lambda>c. m_name (store s' ! c) = name) (m_children (store s' ! p))) = 1
    \<and> (\<forall>q < length (store s). q \<noteq> p \<longrightarrow> store s' ! q = store s ! q)"
proof -
  define m where "m = \<lparr> m_name = name,
          m_range = (case ix of IndexRange rs \<Rightarrow> rs | IndexVal i \<Rightarrow> RangeSpec [i, i]),
          m_size = ra_size r, m_attributes = at, m_children = [] \<rparr>"
  define new where "new = length (store s)"
  from register_alias_Return [OF ret] obtain p where
    free: "b_register_alias s name = None"
    and par: "parent_mem s actual = Some p"
    and st: "store s' = (store s @ [m])
               [p := ((store s @ [m]) ! p)
                  \<lparr> m_children := m_children ((store s @ [m]) ! p) @ [new] \<rparr>]"
    and al: "b_memory_aliases s' name = Some new"
    unfolding m_def new_def by auto
  from wf par have p: "p < length (store s)" by (rule wf_store_parent)
  have at_p: "store s' ! p = (store s ! p)\<lparr> m_children := m_children (store s ! p) @ [new] \<rparr>"
    using p by (simp add: st nth_append)
  have at_new: "store s' ! new = m"
    using p by (simp add: st new_def nth_append)
  have others: "\<forall>q < length (store s). q \<noteq> p \<longrightarrow> store s' ! q = store s ! q"
    using p by (simp add: st nth_append)
  have old: "c < new \<and> m_name (store s' ! c) \<noteq> name"
    if c: "c \<in> set (m_children (store s ! p))" for c
  proof -
    from wf_store_child [OF wf p c]
    have lt: "c < length (store s)" and al: "b_register_alias s (m_name (store s ! c)) \<noteq> None"
      by simp_all
    have "m_name (store s' ! c) = m_name (store s ! c)"
      using lt others at_p by (cases "c = p") simp_all
    with al free lt show ?thesis by (auto simp: new_def)
  qed
  have fresh: "new \<notin> set (m_children (store s ! p))"
    using old by blast
  have cnt: "count_list (m_children (store s' ! p)) new = 1"
    using fresh by (simp add: at_p count_list_0_iff)
  have "filter (\<lambda>c. m_name (store s' ! c) = name) (m_children (store s ! p)) = []"
    using old by (simp add: filter_empty_conv)
  then have named: "length (filter (\<lambda>c. m_name (store s' ! c) = name)
      (m_children (store s' ! p))) = 1"
    using at_new by (simp add: at_p m_def)
  from par have tab: "b_memories s actual = Some p
      \<or> (b_memories s actual = None \<and> b_memory_aliases s actual = Some p)"
    by (simp add: parent_mem_tables)
  from tab p al at_new at_p cnt named others show ?thesis
    unfolding m_def new_def by blast
qed


theorem register_alias_memory_child_witness:
  "fst (register_alias (''X0L'', PInt 16, ''X0'', IndexRange (RangeSpec [PInt 15, PInt 0]), {})
          with_X0) =
       Return \<lparr> ra_name = ''X0L'', ra_actual = InRegisters ''X0'',
         ra_index = IndexRange (RangeSpec [PInt 15, PInt 0]), ra_attributes = {},
         ra_initval = None, ra_size = PInt 16 \<rparr>
   \<and> store (snd (register_alias
        (''X0L'', PInt 16, ''X0'', IndexRange (RangeSpec [PInt 15, PInt 0]), {}) with_X0)) ! 0 =
       \<lparr> m_name = ''X0'', m_range = RangeSpec [PInt 0, PInt 0], m_size = PInt 32,
          m_attributes = {}, m_children = [1] \<rparr>
   \<and> store (snd (register_alias
        (''X0L'', PInt 16, ''X0'', IndexRange (RangeSpec [PInt 15, PInt 0]), {}) with_X0)) ! 1 =
        \<lparr> m_name = ''X0L'', m_range = RangeSpec [PInt 15, PInt 0], m_size = PInt 16,
          m_attributes = {}, m_children = [] \<rparr>"
proof -
  let ?args = "(''X0L'', PInt 16, ''X0'', IndexRange (RangeSpec [PInt 15, PInt 0]), {})"
  from register_alias_memory_child [OF with_X0_wf with_X0_alias_range]
  obtain p where "p < length (store with_X0)"
    and "store (snd (register_alias ?args with_X0)) ! length (store with_X0) =
        \<lparr> m_name = ''X0L'', m_range = RangeSpec [PInt 15, PInt 0],
          m_size = PInt 16, m_attributes = {}, m_children = [] \<rparr>"
    and "store (snd (register_alias ?args with_X0)) ! p =
        (store with_X0 ! p)\<lparr> m_children := m_children (store with_X0 ! p)
           @ [length (store with_X0)] \<rparr>"
    by auto
  then have "store (snd (register_alias ?args with_X0)) ! 1 =
        \<lparr> m_name = ''X0L'', m_range = RangeSpec [PInt 15, PInt 0],
          m_size = PInt 16, m_attributes = {}, m_children = [] \<rparr>"
    and "store (snd (register_alias ?args with_X0)) ! 0 =
        \<lparr> m_name = ''X0'', m_range = RangeSpec [PInt 0, PInt 0], m_size = PInt 32,
          m_attributes = {}, m_children = [1] \<rparr>"
    by (simp_all add: with_X0_tables)
  with with_X0_alias_range_outcome show ?thesis by simp
qed

lemma shadowed_X0_tables:
  "b_register_file shadowed_X0 n = None"
  "b_register_alias shadowed_X0 n = None"
  "b_registers shadowed_X0 ''X0'' =
     Some \<lparr> r_name = ''X0'', r_attributes = {}, r_initval = None, r_size = PInt 32 \<rparr>"
  "b_memories shadowed_X0 ''X0'' = Some 1"
  "store shadowed_X0 =
     [\<lparr> m_name = ''X0'', m_range = RangeSpec [PInt 0, PInt 0], m_size = PInt 32,
        m_attributes = {}, m_children = [] \<rparr>,
      \<lparr> m_name = ''X0'', m_range = RangeSpec [PInt 4, PInt 0, PInt 1], m_size = PInt 8,
        m_attributes = {}, m_children = [] \<rparr>]"
  by (simp_all add: shadowed_X0_def address_space_def with_X0_tables Let_def)

lemma shadowed_X0_wf: "wf_store shadowed_X0"
  unfolding shadowed_X0_def by (rule wf_store_address_space [OF with_X0_wf])

text \<open>
  Claim C5, as stated, fails: the parent need not be the Memory node of \<open>R\<close>. After
  \<^verbatim>\<open>Register X0\<close>, whose Memory view is the object 0 of the store, an address space
  named \<open>X0\<close> replaces that view in the Memory table by its own, the object 1. The
  alias \<open>X0L\<close> of \<open>X0\<close> then resolves to the register \<open>X0\<close>, but its Memory view, the
  object 2, becomes a child of the view of the address space; the view of the
  register gets no child.
\<close>

theorem alias_view_joins_other_entity:
  "b_memories with_X0 ''X0'' = Some 0
   \<and> fst (register_alias (''X0L'', PInt 16, ''X0'', IndexRange (RangeSpec [PInt 15, PInt 0]), {})
          shadowed_X0) =
       Return \<lparr> ra_name = ''X0L'', ra_actual = InRegisters ''X0'',
         ra_index = IndexRange (RangeSpec [PInt 15, PInt 0]), ra_attributes = {},
         ra_initval = None, ra_size = PInt 16 \<rparr>
   \<and> store (snd (register_alias
        (''X0L'', PInt 16, ''X0'', IndexRange (RangeSpec [PInt 15, PInt 0]), {}) shadowed_X0)) =
       [\<lparr> m_name = ''X0'', m_range = RangeSpec [PInt 0, PInt 0], m_size = PInt 32,
          m_attributes = {}, m_children = [] \<rparr>,
        \<lparr> m_name = ''X0'', m_range = RangeSpec [PInt 4, PInt 0, PInt 1], m_size = PInt 8,
          m_attributes = {}, m_children = [2] \<rparr>,
        \<lparr> m_name = ''X0L'', m_range = RangeSpec [PInt 15, PInt 0], m_size = PInt 16,
          m_attributes = {}, m_children = [] \<rparr>]"
  by (simp add: register_alias_def actual_reg_def parent_mem_def shadowed_X0_tables
      with_X0_tables Let_def)

subsection \<open>The index of an alias\<close>

text \<open>
  Claim C9, as amended. A successful \<^verbatim>\<open>register_alias\<close> reduction whose index is a
  single index \<open>i\<close> normalizes it to \<open>RangeSpec(i, i)\<close> for the paired Memory view
  only: the RegisterAlias entity, returned and stored, is constructed before the
  normalization and carries the index \<open>i\<close> as it was given.
\<close>

theorem alias_index_normalized_in_memory_only:
  assumes "register_alias (name, sz, actual, IndexVal i, at) s = (Return r, s')"
  shows "ra_index r = IndexVal i
    \<and> b_register_alias s' name = Some r
    \<and> b_memory_aliases s' name = Some (length (store s))
    \<and> m_name (store s' ! length (store s)) = name
    \<and> m_range (store s' ! length (store s)) = RangeSpec [i, i]"
proof -
  from register_alias_Return [OF assms] obtain areg sz' p where
    r: "r = \<lparr> ra_name = name, ra_actual = areg, ra_index = IndexVal i, ra_attributes = at,
             ra_initval = None, ra_size = sz' \<rparr>"
    and s': "s' = s\<lparr> b_register_alias := (b_register_alias s)(name \<mapsto> r),
            store := (store s @ [\<lparr> m_name = name,
                m_range = (case IndexVal i of IndexRange rs \<Rightarrow> rs | IndexVal i \<Rightarrow> RangeSpec [i, i]),
                m_size = sz', m_attributes = at, m_children = [] \<rparr>])
              [p := ((store s @ [\<lparr> m_name = name,
                m_range = (case IndexVal i of IndexRange rs \<Rightarrow> rs | IndexVal i \<Rightarrow> RangeSpec [i, i]),
                m_size = sz', m_attributes = at, m_children = [] \<rparr>]) ! p)
                 \<lparr> m_children := m_children ((store s @ [\<lparr> m_name = name,
                m_range = (case IndexVal i of IndexRange rs \<Rightarrow> rs | IndexVal i \<Rightarrow> RangeSpec [i, i]),
                m_size = sz', m_attributes = at, m_children = [] \<rparr>]) ! p)
                    @ [length (store s)] \<rparr>],
            b_memory_aliases := (b_memory_aliases s)(name \<mapsto> length (store s)) \<rparr>"
    by blast
  show ?thesis
    by (cases "p = length (store s)") (simp_all add: r s' nth_list_update nth_append)
qed


theorem alias_index_normalized_in_memory_only_witness:
  "fst (register_alias (''X0L'', PInt 16, ''X0'', IndexVal (PInt 3), {}) with_X0) =
       Return \<lparr> ra_name = ''X0L'', ra_actual = InRegisters ''X0'',
         ra_index = IndexVal (PInt 3), ra_attributes = {},
         ra_initval = None, ra_size = PInt 16 \<rparr>
   \<and> m_range (store (snd (register_alias (''X0L'', PInt 16, ''X0'', IndexVal (PInt 3), {})
        with_X0)) ! 1) = RangeSpec [PInt 3, PInt 3]"
  using alias_index_normalized_in_memory_only [OF with_X0_alias_index]
        with_X0_alias_index_outcome
  by (simp add: with_X0_tables)

text \<open>
  Claim C9, as stated, fails: for \<^verbatim>\<open>Register X0\<close> and the alias \<open>X0L\<close> of \<open>X0\<close> at
  the single index 3, the RegisterAlias entity carries the index 3, which is not the
  RangeSpec (3, 3).
\<close>

theorem alias_entity_keeps_single_index:
  "fst (register_alias (''X0L'', PInt 16, ''X0'', IndexVal (PInt 3), {}) with_X0) =
       Return \<lparr> ra_name = ''X0L'', ra_actual = InRegisters ''X0'',
         ra_index = IndexVal (PInt 3), ra_attributes = {},
         ra_initval = None, ra_size = PInt 16 \<rparr>
   \<and> b_register_alias
        (snd (register_alias (''X0L'', PInt 16, ''X0'', IndexVal (PInt 3), {}) with_X0)) ''X0L'' =
       Some \<lparr> ra_name = ''X0L'', ra_actual = InRegisters ''X0'',
         ra_index = IndexVal (PInt 3), ra_attributes = {},
         ra_initval = None, ra_size = PInt 16 \<rparr>
   \<and> IndexVal (PInt 3) \<noteq> IndexRange (RangeSpec [PInt 3, PInt 3])"
  by (simp add: register_alias_def actual_reg_def parent_mem_def with_X0_tables Let_def)


subsection \<open>Instructions with the same code and mask\<close>

lemma instruction_outcome:
  "fst (instruction derive a s) = Return (Instruction_init derive a)"
  by (cases a) (simp add: instruction_def Let_def)

lemma instruction_table:
  "b_instructions (snd (instruction derive (n, at, enc, d, opn) s)) =
     (b_instructions s)(derive enc \<mapsto> Instruction_init derive (n, at, enc, d, opn))"
  by (simp add: instruction_def Instruction_init_def Let_def split: option.splits)

lemma instruction_stdout:
  "stdout (snd (instruction derive (n, at, enc, d, opn) s)) =
     (case b_instructions s (derive enc) of
        None \<Rightarrow> stdout s
      | Some old \<Rightarrow> stdout s @ [''WARN: overwriting instruction '' @ i_name old @ '' with '' @ n])"
  by (simp add: instruction_def Instruction_init_def Let_def split: option.splits)

lemma instruction_idx:
  "b_current_instr_idx (snd (instruction derive a s)) = Suc (b_current_instr_idx s)"
  by (cases a) (simp add: instruction_def Let_def split: option.splits)

lemma reduce_instructions_keeps:
  "\<forall>a \<in> set mid. derive (fst (snd (snd a))) \<noteq> k \<Longrightarrow>
   b_instructions (reduce_instructions derive mid s) k = b_instructions s k"
proof (induction mid arbitrary: s)
  case Nil
  then show ?case by simp
next
  case (Cons a mid)
  obtain n at enc d opn where a: "a = (n, at, enc, d, opn)" by (cases a)
  from Cons.prems have "derive enc \<noteq> k" by (simp add: a)
  then have "b_instructions (snd (instruction derive a s)) k = b_instructions s k"
    by (simp add: a instruction_table)
  with Cons show ?case by simp
qed

lemma collision_example:
  "instruction width_key (''ADD'', {}, [], ''add'', ()) init =
     (Return (Instruction_init width_key (''ADD'', {}, [], ''add'', ())),
      snd (instruction width_key (''ADD'', {}, [], ''add'', ()) init))"
  "instruction width_key (''ADDI'', {}, [], ''addi'', ())
     (reduce_instructions width_key
        [(''NOP'', {}, [EncVal \<lparr> bv_length = 6, bv_value = 19 \<rparr>], ''nop'', ())]
        (snd (instruction width_key (''ADD'', {}, [], ''add'', ()) init))) =
     (Return (Instruction_init width_key (''ADDI'', {}, [], ''addi'', ())),
      snd (instruction width_key (''ADDI'', {}, [], ''addi'', ())
        (reduce_instructions width_key
          [(''NOP'', {}, [EncVal \<lparr> bv_length = 6, bv_value = 19 \<rparr>], ''nop'', ())]
          (snd (instruction width_key (''ADD'', {}, [], ''add'', ()) init)))))"
  by (simp_all add: prod_eq_iff instruction_outcome)

text \<open>
  Claim C2. Two \<^verbatim>\<open>instruction\<close> reductions whose encodings give the same pair
  (code, mask), with any instruction reductions of other pairs between them: neither
  raises; after the first the table holds the first instruction under the pair, after
  the second it holds the second one there, so the second has overwritten the first;
  the second reduction prints exactly one line, the warning that names both
  instructions; the table has the same keys before and after the second reduction and
  the same entries under the other keys, and exactly one instruction is stored under
  the pair. The table is keyed by the pair, not by the name, and the instruction index
  advances all the same.
\<close>

theorem instruction_collision_overwrites:
  assumes same: "derive enc1 = derive enc2"
    and others: "\<forall>a \<in> set mid. derive (fst (snd (snd a))) \<noteq> derive enc1"
    and first: "instruction derive (n1, at1, enc1, d1, op1) s = (out1, s1)"
    and between: "reduce_instructions derive mid s1 = s1'"
    and second: "instruction derive (n2, at2, enc2, d2, op2) s1' = (out2, s2)"
  shows "out1 = Return (Instruction_init derive (n1, at1, enc1, d1, op1))
    \<and> b_instructions s1' (derive enc1) = Some (Instruction_init derive (n1, at1, enc1, d1, op1))
    \<and> out2 = Return (Instruction_init derive (n2, at2, enc2, d2, op2))
    \<and> b_instructions s2 (derive enc1) = Some (Instruction_init derive (n2, at2, enc2, d2, op2))
    \<and> stdout s2 = stdout s1' @ [''WARN: overwriting instruction '' @ n1 @ '' with '' @ n2]
    \<and> dom (b_instructions s2) = dom (b_instructions s1')
    \<and> (\<forall>k. k \<noteq> derive enc1 \<longrightarrow> b_instructions s2 k = b_instructions s1' k)
    \<and> card {i. b_instructions s2 (derive enc1) = Some i} = 1
    \<and> b_current_instr_idx s2 = Suc (b_current_instr_idx s1')"
proof -
  from first have o1: "out1 = Return (Instruction_init derive (n1, at1, enc1, d1, op1))"
    and s1: "s1 = snd (instruction derive (n1, at1, enc1, d1, op1) s)"
    using instruction_outcome [of derive "(n1, at1, enc1, d1, op1)" s] by simp_all
  from second have o2: "out2 = Return (Instruction_init derive (n2, at2, enc2, d2, op2))"
    and s2: "s2 = snd (instruction derive (n2, at2, enc2, d2, op2) s1')"
    using instruction_outcome [of derive "(n2, at2, enc2, d2, op2)" s1'] by simp_all
  have "b_instructions s1 (derive enc1) = Some (Instruction_init derive (n1, at1, enc1, d1, op1))"
    by (simp add: s1 instruction_table)
  with others between
  have held: "b_instructions s1' (derive enc1) =
      Some (Instruction_init derive (n1, at1, enc1, d1, op1))"
    using reduce_instructions_keeps [of mid derive "derive enc1" s1] by simp
  have tab: "b_instructions s2 =
      (b_instructions s1')(derive enc1 \<mapsto> Instruction_init derive (n2, at2, enc2, d2, op2))"
    by (simp add: s2 instruction_table same)
  have out: "stdout s2 = stdout s1' @ [''WARN: overwriting instruction '' @ n1 @ '' with '' @ n2]"
    using held by (simp add: s2 instruction_stdout same [symmetric] Instruction_init_def)
  have dom: "dom (b_instructions s2) = dom (b_instructions s1')"
    using held by (auto simp: tab)
  have "{i. b_instructions s2 (derive enc1) = Some i} =
      {Instruction_init derive (n2, at2, enc2, d2, op2)}"
    by (auto simp: tab)
  then have one: "card {i. b_instructions s2 (derive enc1) = Some i} = 1"
    by simp
  have idx: "b_current_instr_idx s2 = Suc (b_current_instr_idx s1')"
    by (simp add: s2 instruction_idx)
  from o1 held o2 out dom one idx show ?thesis
    by (simp add: tab)
qed

theorem instruction_collision_overwrites_witness:
  "stdout (snd (instruction width_key (''ADDI'', {}, [], ''addi'', ())
        (reduce_instructions width_key
          [(''NOP'', {}, [EncVal \<lparr> bv_length = 6, bv_value = 19 \<rparr>], ''nop'', ())]
          (snd (instruction width_key (''ADD'', {}, [], ''add'', ()) (init :: unit builder))))))
       = [''WARN: overwriting instruction ADD with ADDI'']
   \<and> map_option i_name (b_instructions (snd (instruction width_key (''ADDI'', {}, [], ''addi'', ())
        (reduce_instructions width_key
          [(''NOP'', {}, [EncVal \<lparr> bv_length = 6, bv_value = 19 \<rparr>], ''nop'', ())]
          (snd (instruction width_key (''ADD'', {}, [], ''add'', ()) (init :: unit builder)))))) (0, 0))
       = Some ''ADDI''"
proof -
  have same: "width_key [] = width_key []" by simp
  have others: "\<forall>a \<in> set [(''NOP'', {}, [EncVal \<lparr> bv_length = 6, bv_value = 19 \<rparr>], ''nop'', ())].
         width_key (fst (snd (snd a))) \<noteq> width_key []"
    by (simp add: width_key_def)
  have quiet: "stdout (reduce_instructions width_key
          [(''NOP'', {}, [EncVal \<lparr> bv_length = 6, bv_value = 19 \<rparr>], ''nop'', ())]
          (snd (instruction width_key (''ADD'', {}, [], ''add'', ()) (init :: unit builder)))) = []"
    by (simp add: instruction_stdout instruction_table init_tables width_key_def)
  from instruction_collision_overwrites
    [OF same others collision_example(1) refl collision_example(2)] quiet
  show ?thesis
    by (simp add: width_key_def Instruction_init_def)
qed


subsection \<open>One Memory table for three kinds\<close>

lemma resolves_constants:
  "b_constants s' = b_constants s \<Longrightarrow> resolves s' v = resolves s v"
  by (cases v) (simp_all add: resolves_def)

lemma resolves_Inr: "resolves s v \<Longrightarrow> \<exists>v'. get_constant_or_val s v = Inr v'"
  by (cases "get_constant_or_val s v") (simp_all add: resolves_def)

lemma address_space_admissible:
  assumes "admissible s (Address_space (n, sz, lb, lp, at))"
  shows "\<exists>a m. address_space (n, sz, lb, lp, at) s =
      (Return a, s\<lparr> b_address_spaces := (b_address_spaces s)(n \<mapsto> a),
         store := store s @ [m], b_memories := (b_memories s)(n \<mapsto> length (store s)) \<rparr>)
    \<and> m_name m = n \<and> m_children m = []"
proof -
  from assms obtain sz' lb' where "get_constant_or_val s sz = Inr sz'"
    and "get_constant_or_val s lb = Inr lb'" and "b_address_spaces s n = None"
    using resolves_Inr [of s sz] resolves_Inr [of s lb] by auto
  moreover from assms obtain lp' where
    "(case lp of None \<Rightarrow> Inr (PInt 1) | Some p \<Rightarrow> get_constant_or_val s p) = Inr lp'"
    using resolves_Inr [of s "the lp"] by (cases lp) auto
  ultimately show ?thesis
    by (intro exI [of _ "\<lparr> as_name = n, as_length_base = lb', as_length_power = lp',
          as_size = sz', as_attributes = at \<rparr>"]
        exI [of _ "\<lparr> m_name = n, m_range = RangeSpec [lb', PInt 0, lp'], m_size = sz',
          m_attributes = at, m_children = [] \<rparr>"])
      (simp add: address_space_def Let_def)
qed

lemma register_admissible:
  assumes "admissible s (Register (n, sz, at))"
  shows "\<exists>r m. register (n, sz, at) s =
      (Return r, s\<lparr> b_registers := (b_registers s)(n \<mapsto> r),
         store := store s @ [m], b_memories := (b_memories s)(n \<mapsto> length (store s)) \<rparr>)
    \<and> m_name m = n \<and> m_children m = []"
proof -
  from assms obtain sz' where "get_constant_or_val s sz = Inr sz'"
    and "b_registers s n = None"
    using resolves_Inr [of s sz] by auto
  then show ?thesis
    by (intro exI [of _ "\<lparr> r_name = n, r_attributes = at, r_initval = None, r_size = sz' \<rparr>"]
        exI [of _ "\<lparr> m_name = n, m_range = RangeSpec [PInt 0, PInt 0], m_size = sz',
          m_attributes = at, m_children = [] \<rparr>"])
      (simp add: register_def Let_def)
qed

lemma register_file_admissible:
  assumes "admissible s (Register_file (rng, n, sz, at))"
  shows "\<exists>r m. register_file (rng, n, sz, at) s =
      (Return r, s\<lparr> b_register_file := (b_register_file s)(n \<mapsto> r),
         store := store s @ [m], b_memories := (b_memories s)(n \<mapsto> length (store s)) \<rparr>)
    \<and> m_name m = n \<and> m_children m = []"
proof -
  from assms obtain sz' where "get_constant_or_val s sz = Inr sz'"
    and "b_register_file s n = None"
    using resolves_Inr [of s sz] by auto
  then show ?thesis
    by (intro exI [of _ "\<lparr> rf_name = n, rf_range = rng, rf_attributes = at, rf_size = sz' \<rparr>"]
        exI [of _ "\<lparr> m_name = n, m_range = rng, m_size = sz',
          m_attributes = at, m_children = [] \<rparr>"])
      (simp add: register_file_def Let_def)
qed

lemma reduce_admissible:
  assumes "admissible s d"
  shows "\<exists>e s' m. reduce d s = (Return e, s')
    \<and> store s' = store s @ [m] \<and> m_name m = declared_name d \<and> m_children m = []
    \<and> b_memories s' = (b_memories s)(declared_name d \<mapsto> length (store s))
    \<and> b_memory_aliases s' = b_memory_aliases s
    \<and> b_constants s' = b_constants s
    \<and> (rule_name d \<noteq> ''address_space'' \<longrightarrow> b_address_spaces s' = b_address_spaces s)
    \<and> (rule_name d \<noteq> ''register'' \<longrightarrow> b_registers s' = b_registers s)
    \<and> (rule_name d \<noteq> ''register_file'' \<longrightarrow> b_register_file s' = b_register_file s)"
proof (cases d)
  case (Address_space args)
  obtain n sz lb lp at where args: "args = (n, sz, lb, lp, at)" by (cases args)
  from address_space_admissible [of s n sz lb lp at] assms Address_space args
  show ?thesis by auto
next
  case (Register args)
  obtain n sz at where args: "args = (n, sz, at)" by (cases args)
  from register_admissible [of s n sz at] assms Register args
  show ?thesis by auto
next
  case (Register_file args)
  obtain rng n sz at where args: "args = (rng, n, sz, at)" by (cases args)
  from register_file_admissible [of s rng n sz at] assms Register_file args
  show ?thesis by auto
qed

lemma admissible_frame:
  assumes "admissible s d"
    and "b_constants s' = b_constants s"
    and "rule_name d = ''address_space'' \<longrightarrow> b_address_spaces s' = b_address_spaces s"
    and "rule_name d = ''register'' \<longrightarrow> b_registers s' = b_registers s"
    and "rule_name d = ''register_file'' \<longrightarrow> b_register_file s' = b_register_file s"
  shows "admissible s' d"
proof (cases d)
  case (Address_space args)
  obtain n sz lb lp at where args: "args = (n, sz, lb, lp, at)" by (cases args)
  from assms Address_space args show ?thesis
    by (cases lp) (simp_all add: resolves_constants [of s' s])
next
  case (Register args)
  obtain n sz at where args: "args = (n, sz, at)" by (cases args)
  from assms Register args show ?thesis
    by (simp add: resolves_constants [of s' s])
next
  case (Register_file args)
  obtain rng n sz at where args: "args = (rng, n, sz, at)" by (cases args)
  from assms Register_file args show ?thesis
    by (simp add: resolves_constants [of s' s])
qed

lemma rule_name_cases:
  "rule_name d = ''address_space'' \<or> rule_name d = ''register'' \<or> rule_name d = ''register_file''"
  by (cases d) simp_all

lemma apfst_eq: "apfst f p = (a, b) \<longleftrightarrow> f (fst p) = a \<and> snd p = b"
  by (cases p) auto

text \<open>
  Claim C10. \<^verbatim>\<open>address_space\<close>, \<^verbatim>\<open>register\<close> and \<^verbatim>\<open>register_file\<close>
  store their Memory views in the one table \<^verbatim>\<open>__memories\<close>, keyed by name. For two
  declarations of different kinds with the same name \<open>n\<close>, each admissible in the
  starting state (the name free in the table of its own kind, the sizes resolving):
  both succeed, one after the other; each appends a new Memory object named \<open>n\<close> to
  the store; after the first the table holds the first view under \<open>n\<close>, after the
  second it holds the second view there, without any error; every other entry of the
  table is unchanged.
\<close>

theorem memory_table_shared_across_kinds:
  assumes kinds: "rule_name d1 \<noteq> rule_name d2"
    and n1: "declared_name d1 = n"
    and n2: "declared_name d2 = n"
    and a1: "admissible s d1"
    and a2: "admissible s d2"
  shows "\<exists>e1 s1 e2 s2 m1 m2.
      reduce d1 s = (Return e1, s1) \<and> reduce d2 s1 = (Return e2, s2)
    \<and> store s1 = store s @ [m1] \<and> store s2 = store s @ [m1, m2]
    \<and> m_name m1 = n \<and> m_name m2 = n
    \<and> b_memories s1 n = Some (length (store s))
    \<and> b_memories s2 n = Some (Suc (length (store s)))
    \<and> (\<forall>k. k \<noteq> n \<longrightarrow> b_memories s2 k = b_memories s1 k)
    \<and> (\<forall>k. k \<noteq> n \<longrightarrow> b_memories s2 k = b_memories s k)"
proof -
  from reduce_admissible [OF a1] n1 obtain e1 s1 m1 where
    r1: "reduce d1 s = (Return e1, s1)"
    and st1: "store s1 = store s @ [m1]" and nm1: "m_name m1 = n"
    and mem1: "b_memories s1 = (b_memories s)(n \<mapsto> length (store s))"
    and c1: "b_constants s1 = b_constants s"
    and f1: "rule_name d1 \<noteq> ''address_space'' \<longrightarrow> b_address_spaces s1 = b_address_spaces s"
      "rule_name d1 \<noteq> ''register'' \<longrightarrow> b_registers s1 = b_registers s"
      "rule_name d1 \<noteq> ''register_file'' \<longrightarrow> b_register_file s1 = b_register_file s"
    by auto
  from kinds f1 have "admissible s1 d2"
    by (intro admissible_frame [OF a2 c1]) auto
  from reduce_admissible [OF this] n2 obtain e2 s2 m2 where
    r2: "reduce d2 s1 = (Return e2, s2)"
    and st2: "store s2 = store s1 @ [m2]" and nm2: "m_name m2 = n"
    and mem2: "b_memories s2 = (b_memories s1)(n \<mapsto> length (store s1))"
    by auto
  have "store s2 = store s @ [m1, m2]" by (simp add: st1 st2)
  moreover have "b_memories s1 n = Some (length (store s))" by (simp add: mem1)
  moreover have "b_memories s2 n = Some (Suc (length (store s)))" by (simp add: mem2 st1)
  moreover have "\<forall>k. k \<noteq> n \<longrightarrow> b_memories s2 k = b_memories s1 k" by (simp add: mem2)
  moreover have "\<forall>k. k \<noteq> n \<longrightarrow> b_memories s2 k = b_memories s k" by (simp add: mem1 mem2)
  ultimately show ?thesis using r1 r2 st1 nm1 nm2 by blast
qed

theorem memory_table_shared_across_kinds_witness:
  "rule_name (Address_space (''X'', PInt 8, PInt 4, None, {})) \<noteq> rule_name (Register (''X'', PInt 32, {}))
   \<and> admissible (init :: unit builder) (Address_space (''X'', PInt 8, PInt 4, None, {}))
   \<and> admissible (init :: unit builder) (Register (''X'', PInt 32, {}))
   \<and> b_memories (snd (reduce (Register (''X'', PInt 32, {}))
        (snd (reduce (Address_space (''X'', PInt 8, PInt 4, None, {})) (init :: unit builder)))))
        ''X'' = Some 1
   \<and> b_memories (snd (reduce (Address_space (''X'', PInt 8, PInt 4, None, {}))
        (init :: unit builder))) ''X'' = Some 0"
proof -
  have kinds: "rule_name (Address_space (''X'', PInt 8, PInt 4, None, {}))
      \<noteq> rule_name (Register (''X'', PInt 32, {}))"
    by simp
  have a1: "admissible (init :: unit builder) (Address_space (''X'', PInt 8, PInt 4, None, {}))"
    by (simp add: init_tables resolves_def)
  have a2: "admissible (init :: unit builder) (Register (''X'', PInt 32, {}))"
    by (simp add: init_tables resolves_def)
  have n1: "declared_name (Address_space (''X'', PInt 8, PInt 4, None, {})) = ''X''"
    by simp
  have n2: "declared_name (Register (''X'', PInt 32, {})) = ''X''"
    by simp
  from memory_table_shared_across_kinds [OF kinds n1 n2 a1 a2]
  have "b_memories (snd (reduce (Register (''X'', PInt 32, {}))
        (snd (reduce (Address_space (''X'', PInt 8, PInt 4, None, {})) (init :: unit builder)))))
        ''X'' = Some 1
     \<and> b_memories (snd (reduce (Address_space (''X'', PInt 8, PInt 4, None, {}))
        (init :: unit builder))) ''X'' = Some 0"
    by (auto simp: init_tables apfst_eq)
  with kinds a1 a2 show ?thesis by blast
qed


subsection \<open>The length of an address space\<close>





lemma with_MEM_address_space:
  "b_address_spaces with_MEM ''MEM'' =
     Some \<lparr> as_name = ''MEM'', as_length_base = PConst ''WLEN'',
              as_length_power = PInt 1, as_size = PInt 8, as_attributes = {} \<rparr>"
  "b_constants with_MEM ''WLEN'' =
     Some \<lparr> c_name = ''WLEN'', c_value = Some 32, c_attributes = {} \<rparr>"
  by (simp_all add: with_MEM_def with_WLEN_def address_space_def constant_decl_def
      init_tables Let_def)



subsection \<open>The CoreDef\<close>

lemma merged_registers_lookup:
  "merged_registers s n =
     (case b_register_alias s n of
        Some a \<Rightarrow> Some (OfRegisterAlias a)
      | None \<Rightarrow>
     (case b_registers s n of
        Some r \<Rightarrow> Some (OfRegister r)
      | None \<Rightarrow> map_option OfRegisterFile (b_register_file s n)))"
  by (simp add: merged_registers_def map_add_def split: option.splits)

lemma with_X0L_tables:
  "b_register_file with_X0L n = None"
  "b_registers with_X0L ''X0'' =
     Some \<lparr> r_name = ''X0'', r_attributes = {}, r_initval = None, r_size = PInt 32 \<rparr>"
  "b_registers with_X0L ''X0L'' = None"
  "b_register_alias with_X0L ''X0'' = None"
  "b_register_alias with_X0L ''X0L'' =
     Some \<lparr> ra_name = ''X0L'', ra_actual = InRegisters ''X0'',
       ra_index = IndexRange (RangeSpec [PInt 15, PInt 0]), ra_attributes = {},
       ra_initval = None, ra_size = PInt 16 \<rparr>"
  by (simp_all add: with_X0L_def register_alias_def actual_reg_def parent_mem_def
      with_X0_tables Let_def)

text \<open>
  Claim C3. \<^verbatim>\<open>core_def\<close> returns, in every builder state, a CoreDef made of
  the name, the keys of \<^verbatim>\<open>__read_types\<close>, the template and the builder's tables
  as they are, the three register tables apart, and leaves the state unchanged. The
  merged register view it computes first holds, for a name, the entry of the alias
  table, else that of the register table, else that of the register-file table; it is
  not passed on to the CoreDef. After \<^verbatim>\<open>Register X0\<close> and its alias \<open>X0L\<close> the merged
  view holds both names, and no register table of the CoreDef that
  \<^verbatim>\<open>core_def\<close> returns does: the register-file table and the alias table lack
  \<open>X0\<close>, the register table lacks \<open>X0L\<close>. So the CoreDef is given no unified register
  view.
\<close>

theorem core_def_packages_tables_only:
  "core_def (name, template) s =
     (Return \<lparr> cd_name = name, cd_contributing_types = b_read_types s,
        cd_template = template, cd_constants = b_constants s,
        cd_address_spaces = b_address_spaces s,
        cd_register_files = b_register_file s,
        cd_registers = b_registers s,
        cd_register_aliases = b_register_alias s,
        cd_memories = b_memories s,
        cd_memory_aliases = b_memory_aliases s,
        cd_functions = b_functions s,
        cd_instructions = b_instructions s \<rparr>, s)
   \<and> merged_registers s n =
       (case b_register_alias s n of
          Some a \<Rightarrow> Some (OfRegisterAlias a)
        | None \<Rightarrow>
       (case b_registers s n of
          Some r \<Rightarrow> Some (OfRegister r)
        | None \<Rightarrow> map_option OfRegisterFile (b_register_file s n)))
   \<and> merged_registers with_X0L ''X0'' =
       Some (OfRegister
         \<lparr> r_name = ''X0'', r_attributes = {}, r_initval = None, r_size = PInt 32 \<rparr>)
   \<and> merged_registers with_X0L ''X0L'' =
       Some (OfRegisterAlias \<lparr> ra_name = ''X0L'', ra_actual = InRegisters ''X0'',
         ra_index = IndexRange (RangeSpec [PInt 15, PInt 0]), ra_attributes = {},
         ra_initval = None, ra_size = PInt 16 \<rparr>)
   \<and> (case fst (core_def (''Core'', None) with_X0L) of
         Return c \<Rightarrow>
           cd_register_files c ''X0'' = None
           \<and> cd_registers c ''X0L'' = None
           \<and> cd_register_aliases c ''X0'' = None
       | Discard \<Rightarrow> False
       | Raise e \<Rightarrow> False)"
  by (simp add: core_def_def Let_def merged_registers_lookup with_X0L_tables)

end
